theory Spec2Isabelle
  imports Complex_Main "HOL-Library.Sublist"
begin

section \<open>Data model (app/models.py, app/config.py)\<close>

text \<open>
  A Python \<open>str\<close> is a sequence of Unicode code points and \<open>len\<close> counts code
  points, so the text the program measures and rewrites is a list of code points.
  Identifiers (channel ids, record ids, Slack message handles, reaction names) are
  plain strings. A \<open>datetime\<close> is an integer number of microseconds (the resolution
  of \<open>datetime\<close>), and \<open>timedelta(minutes=m)\<close> is \<open>m * 60000000\<close>.
\<close>

type_synonym pystr = "nat list"
type_synonym time = int

definition minutes :: "int \<Rightarrow> int" where
  "minutes m = m * 60000000"

record SlackMessage =
  message_id :: string
  m_channel_id :: string
  user_id :: string
  m_text :: pystr
  timestamp :: time

record MessageBuffer =
  b_channel_id :: string
  messages :: "SlackMessage list"
  started_at :: time

record ConversationSummary =
  summary :: pystr
  key_ideas :: "pystr list"
  opinions :: "pystr list"
  decisions :: "pystr list"
  interesting_phrases :: "pystr list"

record PostIdea =
  core_insight :: pystr
  why_it_works :: pystr

record PostWorthinessResult =
  is_post_worthy :: bool
  ideas :: "PostIdea list"

record GeneratedContent =
  g_core_insight :: pystr
  g_why_it_works :: pystr
  linkedin_draft :: pystr
  x_draft :: pystr

datatype SuggestionStatus = PENDING | SAVED | IGNORED | REWRITTEN

record Settings =
  buffer_window_minutes :: int
  min_messages_for_summary :: int
  max_suggestions_per_day :: int

definition default_settings :: Settings where
  "default_settings =
     \<lparr>buffer_window_minutes = 60, min_messages_for_summary = 8, max_suggestions_per_day = 3\<rparr>"

section \<open>The record store (app/database.py)\<close>

text \<open>
  The store is the four tables the program reads and writes. A row of
  \<open>suggestions\<close> carries the columns \<open>save_suggestion\<close> inserts, together with the
  \<open>id\<close> and \<open>created_at\<close> the store fills in at insertion.
\<close>

record summary_row =
  sm_id :: string
  sm_channel_id :: string
  sm_summary :: pystr
  sm_message_count :: nat
  sm_window_start :: time
  sm_window_end :: time
  sm_created_at :: time

record suggestion_row =
  s_id :: string
  s_summary_id :: string
  s_insight :: pystr
  s_linkedin_draft :: pystr
  s_x_draft :: pystr
  s_status :: SuggestionStatus
  s_created_at :: time

record Database =
  messages_tbl :: "SlackMessage list"
  summaries_tbl :: "summary_row list"
  suggestions_tbl :: "suggestion_row list"
  listening_tbl :: "string list"
  inserted :: nat

text \<open>\<open>get_messages_in_window\<close>: the channel's messages of the last \<open>window_minutes\<close>
  minutes, oldest first.\<close>

definition get_messages_in_window :: "Database \<Rightarrow> string \<Rightarrow> int \<Rightarrow> time \<Rightarrow> SlackMessage list" where
  "get_messages_in_window d channel window_minutes now =
     sort_key timestamp
       (filter (\<lambda>m. m_channel_id m = channel \<and> now - minutes window_minutes \<le> timestamp m)
          (messages_tbl d))"

section \<open>Message buffer (app/services/buffer.py)\<close>

type_synonym buffers = "string \<rightharpoonup> MessageBuffer"

definition get_buffer_from_db :: "Settings \<Rightarrow> Database \<Rightarrow> string \<Rightarrow> time \<Rightarrow> SlackMessage list" where
  "get_buffer_from_db cfg d channel now =
     get_messages_in_window d channel (buffer_window_minutes cfg) now"

definition db_count_ready :: "Settings \<Rightarrow> Database \<Rightarrow> string \<Rightarrow> time \<Rightarrow> bool" where
  "db_count_ready cfg d channel now =
     (let db_messages = get_buffer_from_db cfg d channel now
      in if min_messages_for_summary cfg \<le> int (length db_messages) then True else False)"

text \<open>\<open>should_summarize\<close>, branch by branch: the store is asked only when the channel
  has no buffer object or its message list is empty.\<close>

definition should_summarize :: "Settings \<Rightarrow> Database \<Rightarrow> buffers \<Rightarrow> string \<Rightarrow> time \<Rightarrow> bool" where
  "should_summarize cfg d bufs channel now =
     (case bufs channel of
        None \<Rightarrow> db_count_ready cfg d channel now
      | Some buffer \<Rightarrow>
          if messages buffer = [] then db_count_ready cfg d channel now
          else if min_messages_for_summary cfg \<le> int (length (messages buffer)) then True
          else if minutes (buffer_window_minutes cfg) \<le> now - started_at buffer
                  \<and> 3 \<le> length (messages buffer) then True
          else False)"

definition get_messages_for_summary :: "Settings \<Rightarrow> Database \<Rightarrow> buffers \<Rightarrow> string \<Rightarrow> time \<Rightarrow> SlackMessage list" where
  "get_messages_for_summary cfg d bufs channel now =
     (let db_messages = get_buffer_from_db cfg d channel now
      in if db_messages \<noteq> [] then db_messages
         else (case bufs channel of None \<Rightarrow> [] | Some buffer \<Rightarrow> messages buffer))"

definition clear_buffer :: "buffers \<Rightarrow> string \<Rightarrow> time \<Rightarrow> buffers" where
  "clear_buffer bufs channel now =
     (case bufs channel of
        None \<Rightarrow> bufs
      | Some _ \<Rightarrow> bufs(channel \<mapsto> \<lparr>b_channel_id = channel, messages = [], started_at = now\<rparr>))"

definition example_message :: "string \<Rightarrow> time \<Rightarrow> SlackMessage" where
  "example_message c t =
     \<lparr>message_id = ''m'', m_channel_id = c, user_id = ''U1'', m_text = [104, 105], timestamp = t\<rparr>"

definition empty_db :: Database where
  "empty_db = \<lparr>messages_tbl = [], summaries_tbl = [], suggestions_tbl = [],
                listening_tbl = [], inserted = 0\<rparr>"

section \<open>External collaborators\<close>

text \<open>
  What the language model returns after \<open>json.loads\<close>: a JSON value. A dict is the
  list of its items; \<open>dict_get\<close> is \<open>dict.get(key, default)\<close> and \<open>truthy\<close> is
  Python's truth value of the parsed value, which is what an \<open>if\<close> on it tests.
\<close>

datatype jval =
    JNull
  | JBool bool
  | JNum rat
  | JStr pystr
  | JArr "jval list"
  | JObj "(string \<times> jval) list"

fun truthy :: "jval \<Rightarrow> bool" where
  "truthy JNull = False"
| "truthy (JBool b) = b"
| "truthy (JNum r) = (r \<noteq> 0)"
| "truthy (JStr s) = (s \<noteq> [])"
| "truthy (JArr xs) = (xs \<noteq> [])"
| "truthy (JObj kv) = (kv \<noteq> [])"

definition dict_get :: "(string \<times> jval) list \<Rightarrow> string \<Rightarrow> jval \<Rightarrow> jval" where
  "dict_get kv key dflt = (case map_of kv key of None \<Rightarrow> dflt | Some v \<Rightarrow> v)"

text \<open>The prompt of each model call, by the template it is formatted from and the
  values put into it.\<close>

datatype prompt =
    SummarizerPrompt "SlackMessage list"
  | PostWorthinessPrompt pystr "pystr list" "pystr list"
  | DeduplicationPrompt "pystr list" pystr
  | SensitivityPrompt pystr pystr
  | LinkedinPrompt pystr pystr pystr
  | XPostPrompt pystr
  | RewriteLinkedinPrompt pystr pystr pystr
  | RewriteXPrompt pystr pystr

datatype out_message =
    SaveConfirmation "string option"
  | SuggestionMessage pystr pystr pystr pystr

datatype post_result = PostRaised | PostOk "string option"

text \<open>
  Everything outside the repository is a parameter. The two model calls and the Slack
  client are indexed by the number of calls made so far, so the same prompt can be
  answered differently each time; \<open>None\<close> is a call that raised. The store hands out
  the id of the \<open>n\<close>-th inserted row, pydantic validates a parsed field, and the
  Unicode tables say which code points from 128 on are alphanumeric or whitespace.
\<close>

record env =
  llm_complete :: "nat \<Rightarrow> prompt \<Rightarrow> pystr option"
  llm_complete_json :: "nat \<Rightarrow> prompt \<Rightarrow> jval option"
  validate_str :: "jval \<Rightarrow> pystr option"
  validate_str_list :: "jval \<Rightarrow> pystr list option"
  validate_bool :: "jval \<Rightarrow> bool option"
  gen_id :: "nat \<Rightarrow> string"
  chat_postMessage :: "nat \<Rightarrow> string option \<Rightarrow> out_message \<Rightarrow> post_result"
  uni_alnum :: "nat \<Rightarrow> bool"
  uni_space :: "nat \<Rightarrow> bool"

section \<open>Store operations on summaries and suggestions (app/database.py)\<close>

definition today_start :: "time \<Rightarrow> time" where
  "today_start now = now - now mod 86400000000"

definition save_summary ::
  "env \<Rightarrow> Database \<Rightarrow> string \<Rightarrow> pystr \<Rightarrow> SlackMessage list \<Rightarrow> time \<Rightarrow> summary_row \<times> Database" where
  "save_summary e d channel smry msgs now =
     (let row = \<lparr>sm_id = gen_id e (inserted d), sm_channel_id = channel, sm_summary = smry,
                  sm_message_count = length msgs, sm_window_start = timestamp (hd msgs),
                  sm_window_end = timestamp (last msgs), sm_created_at = now\<rparr>
      in (row, d\<lparr>summaries_tbl := summaries_tbl d @ [row], inserted := Suc (inserted d)\<rparr>))"

definition db_save_suggestion ::
  "env \<Rightarrow> Database \<Rightarrow> string \<Rightarrow> pystr \<Rightarrow> pystr \<Rightarrow> pystr \<Rightarrow> SuggestionStatus \<Rightarrow> time
     \<Rightarrow> suggestion_row \<times> Database" where
  "db_save_suggestion e d summary_id insight linkedin x status now =
     (let row = \<lparr>s_id = gen_id e (inserted d), s_summary_id = summary_id, s_insight = insight,
                  s_linkedin_draft = linkedin, s_x_draft = x, s_status = status,
                  s_created_at = now\<rparr>
      in (row, d\<lparr>suggestions_tbl := suggestions_tbl d @ [row], inserted := Suc (inserted d)\<rparr>))"

definition update_suggestion_status :: "Database \<Rightarrow> string \<Rightarrow> SuggestionStatus \<Rightarrow> Database" where
  "update_suggestion_status d suggestion_id status =
     d\<lparr>suggestions_tbl :=
         map (\<lambda>r. if s_id r = suggestion_id then r\<lparr>s_status := status\<rparr> else r)
           (suggestions_tbl d)\<rparr>"

definition get_suggestion :: "Database \<Rightarrow> string \<Rightarrow> suggestion_row option" where
  "get_suggestion d suggestion_id = find (\<lambda>r. s_id r = suggestion_id) (suggestions_tbl d)"

definition get_suggestions_today :: "Database \<Rightarrow> time \<Rightarrow> suggestion_row list" where
  "get_suggestions_today d now =
     filter (\<lambda>r. today_start now \<le> s_created_at r) (suggestions_tbl d)"

definition get_saved_suggestions :: "Database \<Rightarrow> int \<Rightarrow> suggestion_row list" where
  "get_saved_suggestions d limit =
     take (nat limit)
       (rev (sort_key s_created_at (filter (\<lambda>r. s_status r = SAVED) (suggestions_tbl d))))"

definition get_listening_channels :: "Database \<Rightarrow> string list" where
  "get_listening_channels d = listening_tbl d"

section \<open>Summarizer (app/services/summarizer.py)\<close>

text \<open>Every exception inside the \<open>try\<close> (a failed call, a reply that is not a dict,
  a field pydantic rejects) ends in \<open>return None\<close>.\<close>

definition parse_summary :: "env \<Rightarrow> jval \<Rightarrow> ConversationSummary option" where
  "parse_summary e v =
     (case v of
        JObj kv \<Rightarrow>
          (case (validate_str e (dict_get kv ''summary'' (JStr [])),
                 validate_str_list e (dict_get kv ''key_ideas'' (JArr [])),
                 validate_str_list e (dict_get kv ''opinions'' (JArr [])),
                 validate_str_list e (dict_get kv ''decisions'' (JArr [])),
                 validate_str_list e (dict_get kv ''interesting_phrases'' (JArr []))) of
             (Some s, Some k, Some opn, Some dc, Some ph) \<Rightarrow>
               Some \<lparr>summary = s, key_ideas = k, opinions = opn, decisions = dc,
                     interesting_phrases = ph\<rparr>
           | _ \<Rightarrow> None)
      | _ \<Rightarrow> None)"

definition summarize_conversation ::
  "env \<Rightarrow> SlackMessage list \<Rightarrow> nat \<Rightarrow> ConversationSummary option \<times> nat" where
  "summarize_conversation e msgs k =
     (if msgs = [] then (None, k)
      else (case llm_complete_json e k (SummarizerPrompt msgs) of
              None \<Rightarrow> (None, Suc k)
            | Some v \<Rightarrow> (parse_summary e v, Suc k)))"

section \<open>Detector (app/services/detector.py)\<close>

definition parse_idea :: "env \<Rightarrow> jval \<Rightarrow> PostIdea option" where
  "parse_idea e v =
     (case v of
        JObj kv \<Rightarrow>
          (case (validate_str e (dict_get kv ''core_insight'' (JStr [])),
                 validate_str e (dict_get kv ''why_it_works'' (JStr []))) of
             (Some c, Some y) \<Rightarrow> Some \<lparr>core_insight = c, why_it_works = y\<rparr>
           | _ \<Rightarrow> None)
      | _ \<Rightarrow> None)"

fun parse_ideas :: "env \<Rightarrow> jval list \<Rightarrow> PostIdea list option" where
  "parse_ideas e [] = Some []"
| "parse_ideas e (v # vs) =
     (case parse_idea e v of
        None \<Rightarrow> None
      | Some i \<Rightarrow> (case parse_ideas e vs of None \<Rightarrow> None | Some is \<Rightarrow> Some (i # is)))"

text \<open>The loop \<open>for idea_data in result.get("ideas", [])\<close>: a list is walked item by
  item; an empty string or dict gives no iteration; a non-empty string or dict yields
  strings, on which \<open>.get\<close> raises; anything else is not iterable.\<close>

definition ideas_of :: "env \<Rightarrow> jval \<Rightarrow> PostIdea list option" where
  "ideas_of e v =
     (case v of
        JArr vs \<Rightarrow> parse_ideas e vs
      | JStr s \<Rightarrow> (if s = [] then Some [] else None)
      | JObj kv \<Rightarrow> (if kv = [] then Some [] else None)
      | _ \<Rightarrow> None)"

definition detect_post_worthy ::
  "env \<Rightarrow> ConversationSummary \<Rightarrow> nat \<Rightarrow> PostWorthinessResult \<times> nat" where
  "detect_post_worthy e smry k =
     (case llm_complete_json e k
             (PostWorthinessPrompt (summary smry) (key_ideas smry) (interesting_phrases smry)) of
        Some (JObj kv) \<Rightarrow>
          (case (ideas_of e (dict_get kv ''ideas'' (JArr [])),
                 validate_bool e (dict_get kv ''is_post_worthy'' (JBool False))) of
             (Some is, Some b) \<Rightarrow> (\<lparr>is_post_worthy = b, ideas = is\<rparr>, Suc k)
           | _ \<Rightarrow> (\<lparr>is_post_worthy = False, ideas = []\<rparr>, Suc k))
      | _ \<Rightarrow> (\<lparr>is_post_worthy = False, ideas = []\<rparr>, Suc k))"

text \<open>\<open>check_duplicate\<close> and \<open>check_sensitivity\<close> return the value of the reply's
  field; the caller tests it with \<open>if\<close>, so the model returns its truth value. The
  second component is the number of model calls made so far.\<close>

definition check_duplicate :: "env \<Rightarrow> pystr \<Rightarrow> pystr list \<Rightarrow> nat \<Rightarrow> bool \<times> nat" where
  "check_duplicate e new_insight existing_insights k =
     (if existing_insights = [] then (False, k)
      else (case llm_complete_json e k (DeduplicationPrompt existing_insights new_insight) of
              Some (JObj kv) \<Rightarrow> (truthy (dict_get kv ''is_duplicate'' (JBool False)), Suc k)
            | _ \<Rightarrow> (False, Suc k)))"

definition check_sensitivity :: "env \<Rightarrow> pystr \<Rightarrow> pystr \<Rightarrow> nat \<Rightarrow> bool \<times> nat" where
  "check_sensitivity e insight smry k =
     (case llm_complete_json e k (SensitivityPrompt insight smry) of
        Some (JObj kv) \<Rightarrow> (truthy (dict_get kv ''is_sensitive'' (JBool False)), Suc k)
      | _ \<Rightarrow> (True, Suc k))"

text \<open>The loop of \<open>filter_ideas\<close>, with its two lists \<open>existing_insights\<close> and
  \<open>filtered\<close> as accumulators.\<close>

fun filter_loop ::
  "env \<Rightarrow> pystr \<Rightarrow> PostIdea list \<Rightarrow> pystr list \<Rightarrow> PostIdea list \<Rightarrow> nat \<Rightarrow> PostIdea list \<times> nat" where
  "filter_loop e smry [] existing_insights filtered k = (filtered, k)"
| "filter_loop e smry (idea # rest) existing_insights filtered k =
     (case check_duplicate e (core_insight idea) existing_insights k of
        (True, k1) \<Rightarrow> filter_loop e smry rest existing_insights filtered k1
      | (False, k1) \<Rightarrow>
          (case check_sensitivity e (core_insight idea) smry k1 of
             (True, k2) \<Rightarrow> filter_loop e smry rest existing_insights filtered k2
           | (False, k2) \<Rightarrow>
               filter_loop e smry rest (existing_insights @ [core_insight idea])
                 (filtered @ [idea]) k2))"

definition filter_ideas ::
  "env \<Rightarrow> Database \<Rightarrow> PostIdea list \<Rightarrow> pystr \<Rightarrow> nat \<Rightarrow> PostIdea list \<times> nat" where
  "filter_ideas e d cands smry k =
     filter_loop e smry cands (map s_insight (get_saved_suggestions d 20)) [] k"

section \<open>Generator (app/services/generator.py)\<close>

text \<open>
  The character classes of Python's \<open>re\<close> on \<open>str\<close>: \<open>\w\<close> is an alphanumeric code
  point or the underscore, \<open>\s\<close> is a whitespace code point, which is also what
  \<open>str.strip()\<close> removes. Below 128 the classes are written out; from 128 on they
  are the tables of \<open>env\<close>.
\<close>

definition is_word :: "env \<Rightarrow> nat \<Rightarrow> bool" where
  "is_word e c =
     (if c < 128
      then (48 \<le> c \<and> c \<le> 57) \<or> (65 \<le> c \<and> c \<le> 90) \<or> (97 \<le> c \<and> c \<le> 122) \<or> c = 95
      else uni_alnum e c)"

definition is_space :: "env \<Rightarrow> nat \<Rightarrow> bool" where
  "is_space e c =
     (if c < 128 then (9 \<le> c \<and> c \<le> 13) \<or> (28 \<le> c \<and> c \<le> 32) else uni_space e c)"

text \<open>The character class of \<open>emoji_pattern\<close>, range by range.\<close>

definition is_emoji :: "nat \<Rightarrow> bool" where
  "is_emoji c =
     ((0x1F600 \<le> c \<and> c \<le> 0x1F64F) \<or> (0x1F300 \<le> c \<and> c \<le> 0x1F5FF)
      \<or> (0x1F680 \<le> c \<and> c \<le> 0x1F6FF) \<or> (0x1F1E0 \<le> c \<and> c \<le> 0x1F1FF)
      \<or> (0x2702 \<le> c \<and> c \<le> 0x27B0) \<or> (0x24C2 \<le> c \<and> c \<le> 0x1F251))"

text \<open>\<open>emoji_pattern.sub('', draft)\<close>: every maximal run of class members is
  deleted, that is, every member is.\<close>

definition sub_emoji :: "pystr \<Rightarrow> pystr" where
  "sub_emoji draft = filter (\<lambda>c. \<not> is_emoji c) draft"

text \<open>\<open>re.sub(r'#\w+', '', draft)\<close>: scanning from the left, a \<open>#\<close> followed by a
  word character is deleted together with the longest run of word characters after
  it, and the scan goes on behind the match.\<close>

function sub_hashtag :: "env \<Rightarrow> pystr \<Rightarrow> pystr" where
  "sub_hashtag e [] = []"
| "sub_hashtag e (c # cs) =
     (if c = 35 \<and> cs \<noteq> [] \<and> is_word e (hd cs)
      then sub_hashtag e (dropWhile (is_word e) cs)
      else c # sub_hashtag e cs)"
  by pat_completeness auto
termination
  by (relation "measure (\<lambda>(e, s). length s)")
     (auto simp: le_imp_less_Suc length_dropWhile_le)

text \<open>\<open>re.sub(r'#\w+\s*', '', draft)\<close>: as above, and the whitespace behind the word
  characters goes with the match.\<close>

function sub_hashtag_space :: "env \<Rightarrow> pystr \<Rightarrow> pystr" where
  "sub_hashtag_space e [] = []"
| "sub_hashtag_space e (c # cs) =
     (if c = 35 \<and> cs \<noteq> [] \<and> is_word e (hd cs)
      then sub_hashtag_space e (dropWhile (is_space e) (dropWhile (is_word e) cs))
      else c # sub_hashtag_space e cs)"
  by pat_completeness auto
termination
  by (relation "measure (\<lambda>(e, s). length s)")
     (auto simp: less_Suc_eq_le
           intro: order_trans [OF length_dropWhile_le length_dropWhile_le])

text \<open>\<open>re.sub(r'\n{3,}', '\n\n', draft)\<close>: a run of three or more newlines becomes
  two.\<close>

function sub_newlines :: "pystr \<Rightarrow> pystr" where
  "sub_newlines [] = []"
| "sub_newlines (c # cs) =
     (if c = 10 \<and> 2 \<le> length (takeWhile (\<lambda>x. x = 10) cs)
      then 10 # 10 # sub_newlines (dropWhile (\<lambda>x. x = 10) cs)
      else c # sub_newlines cs)"
  by pat_completeness auto
termination
  by (relation "measure length") (auto simp: le_imp_less_Suc length_dropWhile_le)

definition py_strip :: "env \<Rightarrow> pystr \<Rightarrow> pystr" where
  "py_strip e s = rev (dropWhile (is_space e) (rev (dropWhile (is_space e) s)))"

definition clean_linkedin_draft :: "env \<Rightarrow> pystr \<Rightarrow> pystr" where
  "clean_linkedin_draft e draft =
     py_strip e (sub_newlines (sub_hashtag e (sub_emoji draft)))"

definition truncate_x :: "pystr \<Rightarrow> pystr" where
  "truncate_x draft = (if 280 < length draft then take 277 draft @ [46, 46, 46] else draft)"

definition clean_x_draft :: "env \<Rightarrow> pystr \<Rightarrow> pystr" where
  "clean_x_draft e draft = py_strip e (truncate_x (sub_emoji (sub_hashtag_space e draft)))"

definition generate_linkedin_post :: "env \<Rightarrow> PostIdea \<Rightarrow> pystr \<Rightarrow> nat \<Rightarrow> pystr \<times> nat" where
  "generate_linkedin_post e idea smry k =
     (case llm_complete e k (LinkedinPrompt (core_insight idea) (why_it_works idea) smry) of
        Some draft \<Rightarrow> (clean_linkedin_draft e draft, Suc k)
      | None \<Rightarrow> ([], Suc k))"

definition generate_x_post :: "env \<Rightarrow> PostIdea \<Rightarrow> nat \<Rightarrow> pystr \<times> nat" where
  "generate_x_post e idea k =
     (case llm_complete e k (XPostPrompt (core_insight idea)) of
        Some draft \<Rightarrow> (clean_x_draft e draft, Suc k)
      | None \<Rightarrow> ([], Suc k))"

definition generate_content :: "env \<Rightarrow> PostIdea \<Rightarrow> pystr \<Rightarrow> nat \<Rightarrow> GeneratedContent \<times> nat" where
  "generate_content e idea smry k =
     (case generate_linkedin_post e idea smry k of
        (linkedin, k1) \<Rightarrow>
          (case generate_x_post e idea k1 of
             (x, k2) \<Rightarrow>
               (\<lparr>g_core_insight = core_insight idea, g_why_it_works = why_it_works idea,
                 linkedin_draft = linkedin, x_draft = x\<rparr>, k2)))"

definition rewrite_linkedin :: "env \<Rightarrow> pystr \<Rightarrow> pystr \<Rightarrow> pystr \<Rightarrow> nat \<Rightarrow> pystr \<times> nat" where
  "rewrite_linkedin e original_draft insight smry k =
     (case llm_complete e k (RewriteLinkedinPrompt original_draft insight smry) of
        Some draft \<Rightarrow> (clean_linkedin_draft e draft, Suc k)
      | None \<Rightarrow> (original_draft, Suc k))"

definition rewrite_x :: "env \<Rightarrow> pystr \<Rightarrow> pystr \<Rightarrow> nat \<Rightarrow> pystr \<times> nat" where
  "rewrite_x e original_draft insight k =
     (case llm_complete e k (RewriteXPrompt original_draft insight) of
        Some draft \<Rightarrow> (clean_x_draft e draft, Suc k)
      | None \<Rightarrow> (original_draft, Suc k))"

definition save_suggestion ::
  "env \<Rightarrow> Database \<Rightarrow> GeneratedContent \<Rightarrow> string \<Rightarrow> time \<Rightarrow> suggestion_row \<times> Database" where
  "save_suggestion e d content summary_id now =
     db_save_suggestion e d summary_id (g_core_insight content) (linkedin_draft content)
       (x_draft content) PENDING now"

text \<open>A hashtag token is a match of \<open>#\w+\<close>: a \<open>#\<close> directly followed by a word
  character.\<close>

fun has_hashtag :: "env \<Rightarrow> pystr \<Rightarrow> bool" where
  "has_hashtag e (c # d # cs) = ((c = 35 \<and> is_word e d) \<or> has_hashtag e (d # cs))"
| "has_hashtag e _ = False"

definition py :: "string \<Rightarrow> pystr" where
  "py s = map of_char s"

section \<open>Pipeline orchestrator (app/services/pipeline.py)\<close>

text \<open>
  The state of the process: the store, the in-process buffers of \<open>BufferService\<close>,
  the number of model calls made so far, and for the Slack bot the map from message
  handles to suggestion ids, the messages it has posted and the number of calls to
  the Slack client.
\<close>

record world =
  w_db :: Database
  w_buffers :: buffers
  w_llm_calls :: nat
  w_message_map :: "string \<rightharpoonup> string"
  w_sent :: "(string option \<times> out_message) list"
  w_posts :: nat

text \<open>\<open>xs[:n]\<close> for a Python integer \<open>n\<close>; a negative \<open>n\<close> counts from the end.\<close>

definition py_prefix :: "int \<Rightarrow> 'a list \<Rightarrow> 'a list" where
  "py_prefix n xs = (if 0 \<le> n then take (nat n) xs else take (nat (int (length xs) + n)) xs)"

text \<open>The loop over \<open>ideas_to_process\<close>: an idea with an empty draft is skipped, any
  other is saved as a pending suggestion and joins the results with its content.\<close>

fun generate_all ::
  "env \<Rightarrow> pystr \<Rightarrow> string \<Rightarrow> time \<Rightarrow> PostIdea list \<Rightarrow> Database \<Rightarrow> nat
     \<Rightarrow> (suggestion_row \<times> GeneratedContent) list \<times> Database \<times> nat" where
  "generate_all e smry summary_id now [] d k = ([], d, k)"
| "generate_all e smry summary_id now (idea # rest) d k =
     (case generate_content e idea smry k of
        (content, k1) \<Rightarrow>
          if linkedin_draft content = [] \<or> x_draft content = []
          then generate_all e smry summary_id now rest d k1
          else (case save_suggestion e d content summary_id now of
                  (saved, d1) \<Rightarrow>
                    (case generate_all e smry summary_id now rest d1 k1 of
                       (results, d2, k2) \<Rightarrow> ((saved, content) # results, d2, k2))))"

text \<open>Step 4 of \<open>process_channel\<close>: the slots left today, the ideas cut to that
  number, and the loop over them.\<close>

definition generate_step ::
  "env \<Rightarrow> Settings \<Rightarrow> pystr \<Rightarrow> string \<Rightarrow> time \<Rightarrow> suggestion_row list \<Rightarrow> PostIdea list
     \<Rightarrow> Database \<Rightarrow> nat \<Rightarrow> (suggestion_row \<times> GeneratedContent) list \<times> Database \<times> nat" where
  "generate_step e cfg smry summary_id now suggestions_today filtered_ideas d k =
     (let remaining_slots = max_suggestions_per_day cfg - int (length suggestions_today);
          ideas_to_process = py_prefix remaining_slots filtered_ideas
      in generate_all e smry summary_id now ideas_to_process d k)"

definition idea_of_content :: "GeneratedContent \<Rightarrow> PostIdea" where
  "idea_of_content c = \<lparr>core_insight = g_core_insight c, why_it_works = g_why_it_works c\<rparr>"

definition process_channel ::
  "env \<Rightarrow> Settings \<Rightarrow> string \<Rightarrow> time \<Rightarrow> world
     \<Rightarrow> (suggestion_row \<times> GeneratedContent) list \<times> world" where
  "process_channel e cfg channel now w =
     (if \<not> should_summarize cfg (w_db w) (w_buffers w) channel now then ([], w)
      else
        let suggestions_today = get_suggestions_today (w_db w) now in
        if max_suggestions_per_day cfg \<le> int (length suggestions_today) then ([], w)
        else
          let msgs = get_messages_for_summary cfg (w_db w) (w_buffers w) channel now in
          if msgs = [] then ([], w)
          else
            (case summarize_conversation e msgs (w_llm_calls w) of
               (None, k1) \<Rightarrow>
                 ([], w\<lparr>w_buffers := clear_buffer (w_buffers w) channel now, w_llm_calls := k1\<rparr>)
             | (Some smry, k1) \<Rightarrow>
                 if summary smry = []
                 then ([], w\<lparr>w_buffers := clear_buffer (w_buffers w) channel now,
                             w_llm_calls := k1\<rparr>)
                 else
                   (case save_summary e (w_db w) channel (summary smry) msgs now of
                      (summary_record, d1) \<Rightarrow>
                        let summary_id = sm_id summary_record;
                            b1 = clear_buffer (w_buffers w) channel now
                        in (case detect_post_worthy e smry k1 of
                              (detection, k2) \<Rightarrow>
                                if \<not> is_post_worthy detection \<or> ideas detection = []
                                then ([], w\<lparr>w_db := d1, w_buffers := b1, w_llm_calls := k2\<rparr>)
                                else
                                  (case filter_ideas e d1 (ideas detection) (summary smry) k2 of
                                     (filtered_ideas, k3) \<Rightarrow>
                                       if filtered_ideas = []
                                       then ([], w\<lparr>w_db := d1, w_buffers := b1,
                                                   w_llm_calls := k3\<rparr>)
                                       else
                                         (case generate_step e cfg (summary smry) summary_id
                                                 now suggestions_today filtered_ideas d1 k3 of
                                            (results, d2, k4) \<Rightarrow>
                                              (results, w\<lparr>w_db := d2, w_buffers := b1,
                                                          w_llm_calls := k4\<rparr>)))))))"

text \<open>\<open>process_all_channels\<close>: the listening channels one after the other; the
  \<open>i\<close>-th of the pass is processed at time \<open>clock i\<close>.\<close>

fun process_channels ::
  "env \<Rightarrow> Settings \<Rightarrow> (nat \<Rightarrow> time) \<Rightarrow> nat \<Rightarrow> string list \<Rightarrow> world
     \<Rightarrow> (suggestion_row \<times> GeneratedContent) list \<times> world" where
  "process_channels e cfg clock i [] w = ([], w)"
| "process_channels e cfg clock i (channel # rest) w =
     (case process_channel e cfg channel (clock i) w of
        (results, w1) \<Rightarrow>
          (case process_channels e cfg clock (Suc i) rest w1 of
             (all_results, w2) \<Rightarrow> (results @ all_results, w2)))"

definition process_all_channels ::
  "env \<Rightarrow> Settings \<Rightarrow> (nat \<Rightarrow> time) \<Rightarrow> world
     \<Rightarrow> (suggestion_row \<times> GeneratedContent) list \<times> world" where
  "process_all_channels e cfg clock w =
     process_channels e cfg clock 0 (get_listening_channels (w_db w)) w"

section \<open>Reviewer feedback (app/slack_handler.py)\<close>

record reaction_event =
  ev_reaction :: "string option"
  ev_ts :: "string option"
  ev_channel :: "string option"

text \<open>\<open>send_suggestion\<close>: the message is posted; when the client returns a handle, the
  handle is mapped to the suggestion id. A call that raises is logged and nothing
  else happens.\<close>

definition fresh_angle :: pystr where
  "fresh_angle = map of_char ''Fresh angle on your earlier insight''"

definition send_suggestion ::
  "env \<Rightarrow> string option \<Rightarrow> pystr \<Rightarrow> pystr \<Rightarrow> pystr \<Rightarrow> pystr \<Rightarrow> string \<Rightarrow> world \<Rightarrow> world" where
  "send_suggestion e channel insight why linkedin x suggestion_id w =
     (let msg = SuggestionMessage insight why linkedin x in
      case chat_postMessage e (w_posts w) channel msg of
        PostRaised \<Rightarrow> w\<lparr>w_posts := Suc (w_posts w)\<rparr>
      | PostOk message_ts \<Rightarrow>
          w\<lparr>w_posts := Suc (w_posts w),
            w_sent := w_sent w @ [(channel, msg)],
            w_message_map :=
              (case message_ts of
                 None \<Rightarrow> w_message_map w
               | Some ts \<Rightarrow> if ts = [] then w_message_map w
                            else (w_message_map w)(ts \<mapsto> suggestion_id))\<rparr>)"

definition rewrite_suggestion ::
  "env \<Rightarrow> string \<Rightarrow> string option \<Rightarrow> string option \<Rightarrow> world \<Rightarrow> world" where
  "rewrite_suggestion e suggestion_id channel message_ts w =
     (case get_suggestion (w_db w) suggestion_id of
        None \<Rightarrow> w
      | Some suggestion \<Rightarrow>
          (case rewrite_linkedin e (s_linkedin_draft suggestion) (s_insight suggestion) []
                  (w_llm_calls w) of
             (new_linkedin, k1) \<Rightarrow>
               (case rewrite_x e (s_x_draft suggestion) (s_insight suggestion) k1 of
                  (new_x, k2) \<Rightarrow>
                    send_suggestion e channel (s_insight suggestion) fresh_angle new_linkedin
                      new_x suggestion_id (w\<lparr>w_llm_calls := k2\<rparr>))))"

definition handle_reaction :: "env \<Rightarrow> reaction_event \<Rightarrow> world \<Rightarrow> world" where
  "handle_reaction e event w =
     (case (case ev_ts event of None \<Rightarrow> None | Some ts \<Rightarrow> w_message_map w ts) of
        None \<Rightarrow> w
      | Some suggestion_id \<Rightarrow>
          if suggestion_id = [] then w
          else if ev_reaction event = Some ''+1'' \<or> ev_reaction event = Some ''thumbsup''
          then
            (let w1 = w\<lparr>w_db := update_suggestion_status (w_db w) suggestion_id SAVED\<rparr>;
                 msg = SaveConfirmation (ev_ts event)
             in case chat_postMessage e (w_posts w1) (ev_channel event) msg of
                  PostRaised \<Rightarrow> w1\<lparr>w_posts := Suc (w_posts w1)\<rparr>
                | PostOk _ \<Rightarrow>
                    w1\<lparr>w_posts := Suc (w_posts w1),
                       w_sent := w_sent w1 @ [(ev_channel event, msg)]\<rparr>)
          else if ev_reaction event = Some ''arrows_counterclockwise''
                  \<or> ev_reaction event = Some ''repeat''
          then rewrite_suggestion e suggestion_id (ev_channel event) (ev_ts event) w
          else if ev_reaction event = Some ''x''
                  \<or> ev_reaction event = Some ''negative_squared_cross_mark''
          then w\<lparr>w_db := update_suggestion_status (w_db w) suggestion_id IGNORED\<rparr>
          else w)"

section \<open>Example inputs\<close>

definition base_env :: env where
  "base_env =
     \<lparr>llm_complete = (\<lambda>k p. None),
      llm_complete_json = (\<lambda>k p. None),
      validate_str = (\<lambda>v. case v of JStr s \<Rightarrow> Some s | _ \<Rightarrow> None),
      validate_str_list = (\<lambda>v. case v of JArr [] \<Rightarrow> Some [] | _ \<Rightarrow> None),
      validate_bool = (\<lambda>v. case v of JBool b \<Rightarrow> Some b | _ \<Rightarrow> None),
      gen_id = (\<lambda>n. replicate (Suc n) CHR ''i''),
      chat_postMessage = (\<lambda>n c m. PostOk (Some (replicate (Suc n) CHR ''t''))),
      uni_alnum = (\<lambda>c. False),
      uni_space = (\<lambda>c. False)\<rparr>"

definition empty_world :: world where
  "empty_world = \<lparr>w_db = empty_db, w_buffers = Map.empty, w_llm_calls = 0,
                  w_message_map = Map.empty, w_sent = [], w_posts = 0\<rparr>"

definition example_idea :: PostIdea where
  "example_idea = \<lparr>core_insight = [105], why_it_works = [119]\<rparr>"

definition example_suggestion :: "string \<Rightarrow> SuggestionStatus \<Rightarrow> suggestion_row" where
  "example_suggestion sid st =
     \<lparr>s_id = sid, s_summary_id = ''sm'', s_insight = [105], s_linkedin_draft = [108],
      s_x_draft = [120], s_status = st, s_created_at = 0\<rparr>"

text \<open>A model that answers: one summary, three ideas judged post-worthy, none of them
  sensitive, a failing duplicate check, and the same short draft for every post.\<close>

definition demo_env :: env where
  "demo_env =
     base_env
       \<lparr>llm_complete := (\<lambda>k p. Some [100]),
        llm_complete_json :=
          (\<lambda>k p. case p of
               SummarizerPrompt _ \<Rightarrow> Some (JObj [(''summary'', JStr [115])])
             | PostWorthinessPrompt _ _ _ \<Rightarrow>
                 Some (JObj [(''is_post_worthy'', JBool True),
                             (''ideas'', JArr [JObj [(''core_insight'', JStr [97])],
                                              JObj [(''core_insight'', JStr [98])],
                                              JObj [(''core_insight'', JStr [99])]])])
             | SensitivityPrompt _ _ \<Rightarrow> Some (JObj [(''is_sensitive'', JBool False)])
             | _ \<Rightarrow> None)\<rparr>"

text \<open>A store with eight messages of channel \<open>C\<close> and one suggestion saved today.\<close>

definition demo_world :: world where
  "demo_world =
     empty_world
       \<lparr>w_db := empty_db
          \<lparr>messages_tbl := map (example_message ''C'') [0, 1, 2, 3, 4, 5, 6, 7],
           suggestions_tbl := [example_suggestion ''s1'' SAVED],
           listening_tbl := [''C'']\<rparr>,
        w_message_map := [''t1'' \<mapsto> ''s1'']\<rparr>"

definition full_world :: world where
  "full_world =
     demo_world
       \<lparr>w_db := (w_db demo_world)
          \<lparr>suggestions_tbl := [example_suggestion ''s1'' SAVED, example_suggestion ''s2'' PENDING,
                               example_suggestion ''s3'' IGNORED]\<rparr>\<rparr>"

definition reaction :: "string \<Rightarrow> reaction_event" where
  "reaction name = \<lparr>ev_reaction = Some name, ev_ts = Some ''t1'', ev_channel = Some ''D''\<rparr>"

text \<open>A store whose quota of three is used up on day 0, with eight messages of channel
  \<open>C\<close> written in the last microseconds of that day.\<close>

definition midnight_world :: world where
  "midnight_world =
     empty_world
       \<lparr>w_db := empty_db
          \<lparr>messages_tbl :=
             map (example_message ''C'')
               [86399999990, 86399999991, 86399999992, 86399999993, 86399999994,
                86399999995, 86399999996, 86399999997],
           suggestions_tbl := [example_suggestion ''s1'' SAVED, example_suggestion ''s2'' PENDING,
                               example_suggestion ''s3'' IGNORED],
           listening_tbl := [''A'', ''C'']\<rparr>\<rparr>"

section \<open>Readiness of a channel\<close>

text \<open>
  C6. For a channel whose in-process buffer holds at least one message,
  \<open>should_summarize\<close> is true exactly when the buffered count reaches
  \<open>min_messages_for_summary\<close>, or \<open>buffer_window_minutes\<close> have elapsed since the
  buffer was started and at least 3 messages are buffered. In particular, with the
  threshold above 2 (the default is 8), two buffered messages are never ready,
  however long ago the window opened.
\<close>

theorem should_summarize_nonempty_buffer:
  "bufs channel = Some buffer \<Longrightarrow> messages buffer \<noteq> [] \<Longrightarrow>
     (should_summarize cfg d bufs channel now =
        (min_messages_for_summary cfg \<le> int (length (messages buffer))
         \<or> (minutes (buffer_window_minutes cfg) \<le> now - started_at buffer
             \<and> 3 \<le> length (messages buffer))))
     \<and> (2 < min_messages_for_summary cfg \<and> length (messages buffer) = 2
          \<longrightarrow> \<not> should_summarize cfg d bufs channel now)"
  by (auto simp: should_summarize_def)

theorem should_summarize_nonempty_buffer_witness:
  "[''C'' \<mapsto> \<lparr>b_channel_id = ''C'',
                 messages = [example_message ''C'' 0, example_message ''C'' 1],
                 started_at = 0\<rparr>] ''C''
     = Some \<lparr>b_channel_id = ''C'',
              messages = [example_message ''C'' 0, example_message ''C'' 1], started_at = 0\<rparr>
   \<and> messages \<lparr>b_channel_id = ''C'',
              messages = [example_message ''C'' 0, example_message ''C'' 1], started_at = 0\<rparr> \<noteq> []
   \<and> 2 < min_messages_for_summary default_settings
   \<and> \<not> should_summarize default_settings empty_db
          [''C'' \<mapsto> \<lparr>b_channel_id = ''C'',
                 messages = [example_message ''C'' 0, example_message ''C'' 1],
                 started_at = 0\<rparr>] ''C'' (minutes 65)"
  using should_summarize_nonempty_buffer
    [of "[''C'' \<mapsto> \<lparr>b_channel_id = ''C'',
                 messages = [example_message ''C'' 0, example_message ''C'' 1],
                 started_at = 0\<rparr>]" "''C''"
        "\<lparr>b_channel_id = ''C'',
                 messages = [example_message ''C'' 0, example_message ''C'' 1],
                 started_at = 0\<rparr>" default_settings empty_db "minutes 65"]
  by (simp add: default_settings_def)

text \<open>
  C7. For a channel with no buffer object, or with an empty buffered message list (the
  state after a restart), \<open>should_summarize\<close> is true exactly when the number of the
  channel's stored messages inside the window reaches \<open>min_messages_for_summary\<close>.
  The elapsed-time path plays no part: the answer does not depend on when the buffer
  was started.
\<close>

theorem should_summarize_empty_cache:
  "bufs channel = None \<or> (\<exists>buffer. bufs channel = Some buffer \<and> messages buffer = []) \<Longrightarrow>
     should_summarize cfg d bufs channel now =
       (min_messages_for_summary cfg
          \<le> int (length (get_messages_in_window d channel (buffer_window_minutes cfg) now)))"
  by (auto simp: should_summarize_def db_count_ready_def get_buffer_from_db_def
           split: if_splits)

theorem should_summarize_empty_cache_witness:
  "[''C'' \<mapsto> \<lparr>b_channel_id = ''C'', messages = [], started_at = 0\<rparr>] ''C''
     = Some \<lparr>b_channel_id = ''C'', messages = [], started_at = 0\<rparr>
   \<and> messages \<lparr>b_channel_id = ''C'', messages = [], started_at = 0\<rparr> = []
   \<and> \<not> should_summarize default_settings
          (empty_db\<lparr>messages_tbl := replicate 3 (example_message ''C'' (minutes 1))\<rparr>)
          [''C'' \<mapsto> \<lparr>b_channel_id = ''C'', messages = [], started_at = 0\<rparr>] ''C'' (minutes 65)"
  using should_summarize_empty_cache
    [of "[''C'' \<mapsto> \<lparr>b_channel_id = ''C'', messages = [], started_at = 0\<rparr>]" "''C''"
        default_settings
        "empty_db\<lparr>messages_tbl := replicate 3 (example_message ''C'' (minutes 1))\<rparr>"
        "minutes 65"]
  by (simp add: default_settings_def get_messages_in_window_def example_message_def
        minutes_def numeral_3_eq_3)

section \<open>Filtering of ideas\<close>

lemma filter_loop_keeps:
  "prefix fl (fst (filter_loop e smry cands ex fl k))"
proof (induction cands arbitrary: ex fl k)
  case Nil
  then show ?case by simp
next
  case (Cons c cands)
  have "prefix fl (fst (filter_loop e smry cands ex' (fl @ [c]) k'))" for ex' k'
    using Cons.IH [where fl = "fl @ [c]"] by (rule append_prefixD)
  with Cons.IH show ?case
    by (auto split: prod.splits bool.splits)
qed

lemma filter_loop_all_fail:
  "\<forall>j. llm_complete_json e j (SensitivityPrompt (core_insight idea) smry) = None \<Longrightarrow>
   idea \<notin> set fl \<Longrightarrow> idea \<notin> set (fst (filter_loop e smry cands ex fl k))"
proof (induction cands arbitrary: ex fl k)
  case Nil
  then show ?case by simp
next
  case (Cons c cands)
  show ?case
  proof (cases "c = idea")
    case True
    have "check_sensitivity e (core_insight idea) smry j = (True, Suc j)" for j
      using Cons.prems(1) by (simp add: check_sensitivity_def)
    then show ?thesis using Cons True
      by (auto split: prod.splits bool.splits)
  next
    case False
    then show ?thesis using Cons
      by (auto split: prod.splits bool.splits)
  qed
qed

text \<open>
  C5. When the model call of the sensitivity check fails, \<open>check_sensitivity\<close>
  answers \<open>True\<close>. In the loop of \<open>filter_ideas\<close>, an idea whose sensitivity call
  fails adds nothing: the loop goes on over the remaining ideas with both lists as
  they were (this also covers the idea already dropped as a duplicate, for which no
  sensitivity call is made). An idea whose sensitivity calls all fail is not in the
  output of \<open>filter_ideas\<close>.
\<close>

theorem sensitivity_fail_closed:
  "(llm_complete_json e k (SensitivityPrompt insight smry) = None
      \<longrightarrow> check_sensitivity e insight smry k = (True, Suc k))
   \<and> (check_duplicate e (core_insight idea) ex k = (dup, k1)
        \<and> llm_complete_json e k1 (SensitivityPrompt (core_insight idea) smry) = None
      \<longrightarrow> filter_loop e smry (idea # rest) ex fl k
            = filter_loop e smry rest ex fl (if dup then k1 else Suc k1))
   \<and> ((\<forall>j. llm_complete_json e j (SensitivityPrompt (core_insight idea) smry) = None)
      \<longrightarrow> idea \<notin> set (fst (filter_ideas e d cands smry k)))"
proof (intro conjI impI)
  assume "llm_complete_json e k (SensitivityPrompt insight smry) = None"
  then show "check_sensitivity e insight smry k = (True, Suc k)"
    by (simp add: check_sensitivity_def)
next
  assume "check_duplicate e (core_insight idea) ex k = (dup, k1)
        \<and> llm_complete_json e k1 (SensitivityPrompt (core_insight idea) smry) = None"
  then show "filter_loop e smry (idea # rest) ex fl k
            = filter_loop e smry rest ex fl (if dup then k1 else Suc k1)"
    by (cases dup) (simp_all add: check_sensitivity_def)
next
  assume "\<forall>j. llm_complete_json e j (SensitivityPrompt (core_insight idea) smry) = None"
  then show "idea \<notin> set (fst (filter_ideas e d cands smry k))"
    unfolding filter_ideas_def by (intro filter_loop_all_fail) simp_all
qed

theorem sensitivity_fail_closed_witness:
  "llm_complete_json base_env 0 (SensitivityPrompt [105] [115]) = None
   \<and> check_sensitivity base_env [105] [115] 0 = (True, 1)
   \<and> check_duplicate base_env (core_insight example_idea) [] 0 = (False, 0)
   \<and> filter_loop base_env [115] [example_idea, example_idea] [] [] 0
       = filter_loop base_env [115] [example_idea] [] [] 1
   \<and> (\<forall>j. llm_complete_json base_env j (SensitivityPrompt (core_insight example_idea) [115])
            = None)
   \<and> example_idea \<notin> set (fst (filter_ideas base_env empty_db [example_idea] [115] 0))"
  using sensitivity_fail_closed
    [of base_env 0 "[105]" "[115]" example_idea "[]" False 0 "[example_idea]" "[]"
        empty_db "[example_idea]"]
  by (simp add: base_env_def check_duplicate_def example_idea_def)

text \<open>
  C8. With an empty list of existing insights \<open>check_duplicate\<close> answers \<open>False\<close>
  and makes no model call (the call counter is unchanged). When its model call
  fails it answers \<open>False\<close>. So in the loop of \<open>filter_ideas\<close> a failed duplicate
  check excludes nothing: if the sensitivity check then finds the idea not sensitive,
  the idea is appended and is in the output.
\<close>

theorem duplicate_fail_open:
  "check_duplicate e insight [] k = (False, k)
   \<and> (llm_complete_json e k (DeduplicationPrompt ex insight) = None
        \<longrightarrow> fst (check_duplicate e insight ex k) = False)
   \<and> (ex \<noteq> [] \<and> llm_complete_json e k (DeduplicationPrompt ex (core_insight idea)) = None
        \<and> check_sensitivity e (core_insight idea) smry (Suc k) = (False, k2)
      \<longrightarrow> filter_loop e smry (idea # rest) ex fl k
            = filter_loop e smry rest (ex @ [core_insight idea]) (fl @ [idea]) k2
          \<and> idea \<in> set (fst (filter_loop e smry (idea # rest) ex fl k)))"
proof (intro conjI impI)
  show "check_duplicate e insight [] k = (False, k)"
    by (simp add: check_duplicate_def)
next
  assume "llm_complete_json e k (DeduplicationPrompt ex insight) = None"
  then show "fst (check_duplicate e insight ex k) = False"
    by (simp add: check_duplicate_def)
next
  assume a: "ex \<noteq> [] \<and> llm_complete_json e k (DeduplicationPrompt ex (core_insight idea)) = None
        \<and> check_sensitivity e (core_insight idea) smry (Suc k) = (False, k2)"
  then have d: "check_duplicate e (core_insight idea) ex k = (False, Suc k)"
    by (simp add: check_duplicate_def)
  show step: "filter_loop e smry (idea # rest) ex fl k
            = filter_loop e smry rest (ex @ [core_insight idea]) (fl @ [idea]) k2"
    using a d by simp
  have "prefix (fl @ [idea])
          (fst (filter_loop e smry rest (ex @ [core_insight idea]) (fl @ [idea]) k2))"
    by (rule filter_loop_keeps)
  then have "set (fl @ [idea])
          \<subseteq> set (fst (filter_loop e smry rest (ex @ [core_insight idea]) (fl @ [idea]) k2))"
    by (rule set_mono_prefix)
  then show "idea \<in> set (fst (filter_loop e smry (idea # rest) ex fl k))"
    using step by simp
qed

theorem duplicate_fail_open_witness:
  "[[111]] \<noteq> []
   \<and> llm_complete_json demo_env 0 (DeduplicationPrompt [[111]] (core_insight example_idea)) = None
   \<and> fst (check_duplicate demo_env (core_insight example_idea) [[111]] 0) = False
   \<and> check_sensitivity demo_env (core_insight example_idea) [115] (Suc 0) = (False, 2)
   \<and> filter_loop demo_env [115] [example_idea] [[111]] [] 0 = ([example_idea], 2)
   \<and> example_idea \<in> set (fst (filter_loop demo_env [115] [example_idea] [[111]] [] 0))"
  using duplicate_fail_open
    [of demo_env "core_insight example_idea" 0 "[[111]]" example_idea "[115]" 2 "[]" "[]"]
  by (simp add: demo_env_def base_env_def check_sensitivity_def dict_get_def)


section \<open>Quota and skipped channels\<close>

lemma generate_all_props:
  "generate_all e smry sid now cands d k = (results, d2, k2) \<Longrightarrow>
     suggestions_tbl d2 = suggestions_tbl d @ map fst results
     \<and> length results \<le> length cands
     \<and> (\<forall>r \<in> set results. s_created_at (fst r) = now \<and> s_status (fst r) = PENDING)
     \<and> subseq (map (idea_of_content \<circ> snd) results) cands
     \<and> map (s_insight \<circ> fst) results = map (g_core_insight \<circ> snd) results"
proof (induction cands arbitrary: d k results d2 k2)
  case Nil
  then show ?case by simp
next
  case (Cons idea rest)
  obtain content k1 where gc: "generate_content e idea smry k = (content, k1)"
    by (cases "generate_content e idea smry k")
  show ?case
  proof (cases "linkedin_draft content = [] \<or> x_draft content = []")
    case True
    with Cons.prems gc have "generate_all e smry sid now rest d k1 = (results, d2, k2)"
      by simp
    from Cons.IH [OF this] show ?thesis by auto
  next
    case False
    obtain saved d1 where sv: "save_suggestion e d content sid now = (saved, d1)"
      by (cases "save_suggestion e d content sid now")
    obtain res d3 k3 where ga: "generate_all e smry sid now rest d1 k1 = (res, d3, k3)"
      by (cases "generate_all e smry sid now rest d1 k1")
    from Cons.prems gc False sv ga
    have eqs: "results = (saved, content) # res" "d2 = d3" "k2 = k3"
      by simp_all
    have s1: "suggestions_tbl d1 = suggestions_tbl d @ [saved]"
      and s2: "s_created_at saved = now" and s3: "s_status saved = PENDING"
      and s4: "s_insight saved = g_core_insight content"
      using sv by (auto simp: save_suggestion_def db_save_suggestion_def Let_def)
    have s5: "idea_of_content content = idea"
      using gc by (auto simp: generate_content_def idea_of_content_def split: prod.splits)
    from Cons.IH [OF ga] s1 s2 s3 s4 s5 eqs show ?thesis by simp
  qed
qed

lemma process_channel_props:
  assumes "process_channel e cfg channel now w = (results, w')"
  shows "suggestions_tbl (w_db w') = suggestions_tbl (w_db w) @ map fst results"
    and "length results
           \<le> nat (max_suggestions_per_day cfg - int (length (get_suggestions_today (w_db w) now)))"
    and "\<forall>r \<in> set results. s_created_at (fst r) = now \<and> s_status (fst r) = PENDING"
  using assms
  by (auto simp: process_channel_def generate_step_def Let_def save_summary_def py_prefix_def
      split: if_splits prod.splits option.splits dest!: generate_all_props)

lemma today_start_le: "today_start now \<le> now"
  by (simp add: today_start_def)

lemma process_channels_props:
  assumes "process_channels e cfg clock i chs w = (results, w')"
    and "\<forall>j. i \<le> j \<and> j < i + length chs \<longrightarrow> today_start (clock j) = T"
  shows "suggestions_tbl (w_db w') = suggestions_tbl (w_db w) @ map fst results
     \<and> length results
           \<le> nat (max_suggestions_per_day cfg
                  - int (length (filter (\<lambda>r. T \<le> s_created_at r) (suggestions_tbl (w_db w)))))
     \<and> (\<forall>r \<in> set results. s_status (fst r) = PENDING)"
  using assms
proof (induction chs arbitrary: i w results w')
  case Nil
  then show ?case by simp
next
  case (Cons c chs)
  obtain r1 w1 where pc: "process_channel e cfg c (clock i) w = (r1, w1)"
    by (cases "process_channel e cfg c (clock i) w")
  obtain r2 w2 where ps: "process_channels e cfg clock (Suc i) chs w1 = (r2, w2)"
    by (cases "process_channels e cfg clock (Suc i) chs w1")
  from Cons.prems(1) pc ps have eqs: "results = r1 @ r2" "w' = w2"
    by simp_all
  have Ti: "today_start (clock i) = T"
    using Cons.prems(2) by simp
  have day': "\<forall>j. Suc i \<le> j \<and> j < Suc i + length chs \<longrightarrow> today_start (clock j) = T"
    using Cons.prems(2) by simp
  note c1 = process_channel_props [OF pc]
  note ih = Cons.IH [OF ps day']
  let ?cnt = "\<lambda>w. length (filter (\<lambda>r. T \<le> s_created_at r) (suggestions_tbl (w_db w)))"
  have "\<forall>r \<in> set r1. T \<le> s_created_at (fst r)"
    using c1(3) Ti today_start_le [of "clock i"] by auto
  then have "filter (\<lambda>r. T \<le> s_created_at r) (map fst r1) = map fst r1"
    by (auto simp: filter_id_conv)
  then have cnt1: "?cnt w1 = ?cnt w + length r1"
    using c1(1) by simp
  have b1: "length r1 \<le> nat (max_suggestions_per_day cfg - int (?cnt w))"
    using c1(2) Ti by (simp add: get_suggestions_today_def)
  have b2: "length r2 \<le> nat (max_suggestions_per_day cfg - int (?cnt w1))"
    using ih by simp
  have "length (r1 @ r2) \<le> nat (max_suggestions_per_day cfg - int (?cnt w))"
    using b1 b2 cnt1 by simp
  moreover have "suggestions_tbl (w_db w2) = suggestions_tbl (w_db w) @ map fst (r1 @ r2)"
    using ih c1(1) by simp
  moreover have "\<forall>r \<in> set (r1 @ r2). s_status (fst r) = PENDING"
    using ih c1(3) by auto
  ultimately show ?case using eqs by simp
qed

text \<open>What the example model answers, step by step.\<close>

lemma demo_summarize:
  "msgs \<noteq> [] \<Longrightarrow>
     summarize_conversation demo_env msgs k
       = (Some \<lparr>summary = [115], key_ideas = [], opinions = [], decisions = [],
                interesting_phrases = []\<rparr>, Suc k)"
  by (simp add: summarize_conversation_def parse_summary_def dict_get_def demo_env_def
      base_env_def)

lemma demo_detect:
  "detect_post_worthy demo_env smry k
     = (\<lparr>is_post_worthy = True,
         ideas = [\<lparr>core_insight = [97], why_it_works = []\<rparr>,
                  \<lparr>core_insight = [98], why_it_works = []\<rparr>,
                  \<lparr>core_insight = [99], why_it_works = []\<rparr>]\<rparr>, Suc k)"
  by (simp add: detect_post_worthy_def ideas_of_def parse_idea_def dict_get_def demo_env_def
      base_env_def)

lemma demo_filter:
  "fst (filter_loop demo_env smry cands ex fl k) = fl @ cands"
proof (induction cands arbitrary: ex fl k)
  case Nil
  then show ?case by simp
next
  case (Cons c cands)
  have d: "fst (check_duplicate demo_env i ex k) = False" for i k
    by (simp add: check_duplicate_def demo_env_def base_env_def)
  have s: "fst (check_sensitivity demo_env i smry k) = False" for i k
    by (simp add: check_sensitivity_def dict_get_def demo_env_def base_env_def)
  show ?case
    using d [of "core_insight c" k] s Cons.IH
    by (auto split: prod.splits bool.splits) (metis fst_conv)+
qed

lemma demo_generate:
  "generate_content demo_env idea smry k =
     (\<lparr>g_core_insight = core_insight idea, g_why_it_works = why_it_works idea,
       linkedin_draft = [100], x_draft = [100]\<rparr>, Suc (Suc k))"
  by (simp add: generate_content_def generate_linkedin_post_def generate_x_post_def
      clean_linkedin_draft_def clean_x_draft_def py_strip_def truncate_x_def sub_emoji_def
      is_emoji_def is_word_def is_space_def demo_env_def base_env_def)

lemma demo_generate_all:
  "length (fst (generate_all demo_env smry sid now cands d k)) = length cands"
proof (induction cands arbitrary: d k)
  case Nil
  then show ?case by simp
next
  case (Cons c cands)
  obtain saved d1 where sv:
    "save_suggestion demo_env d
       \<lparr>g_core_insight = core_insight c, g_why_it_works = why_it_works c,
        linkedin_draft = [100], x_draft = [100]\<rparr> sid now = (saved, d1)"
    by (cases "save_suggestion demo_env d
       \<lparr>g_core_insight = core_insight c, g_why_it_works = why_it_works c,
        linkedin_draft = [100], x_draft = [100]\<rparr> sid now")
  obtain res d2 k2 where ga:
    "generate_all demo_env smry sid now cands d1 (Suc (Suc k)) = (res, d2, k2)"
    by (cases "generate_all demo_env smry sid now cands d1 (Suc (Suc k))")
  from Cons.IH [of d1 "Suc (Suc k)"] ga have "length res = length cands"
    by simp
  then show ?case
    by (simp add: demo_generate sv ga)
qed

lemma process_channel_full:
  assumes "should_summarize cfg (w_db w) (w_buffers w) channel now"
    and "int (length (get_suggestions_today (w_db w) now)) < max_suggestions_per_day cfg"
    and "get_messages_for_summary cfg (w_db w) (w_buffers w) channel now = msgs"
    and "msgs \<noteq> []"
    and "summarize_conversation e msgs (w_llm_calls w) = (Some smry, k1)"
    and "summary smry \<noteq> []"
    and "save_summary e (w_db w) channel (summary smry) msgs now = (summary_record, d1)"
    and "detect_post_worthy e smry k1 = (detection, k2)"
    and "is_post_worthy detection"
    and "ideas detection \<noteq> []"
    and "filter_ideas e d1 (ideas detection) (summary smry) k2 = (filtered_ideas, k3)"
    and "filtered_ideas \<noteq> []"
  shows "fst (process_channel e cfg channel now w)
           = fst (generate_step e cfg (summary smry) (sm_id summary_record) now
                    (get_suggestions_today (w_db w) now) filtered_ideas d1 k3)"
  using assms by (simp add: process_channel_def Let_def split: prod.splits)

lemma demo_world_ready:
  "should_summarize default_settings (w_db demo_world) (w_buffers demo_world) ''C'' 1000"
  by code_simp

lemma demo_world_today:
  "length (get_suggestions_today (w_db demo_world) 1000) = 1"
  by code_simp

lemma demo_world_messages:
  "get_messages_for_summary default_settings (w_db demo_world) (w_buffers demo_world) ''C'' 1000
     \<noteq> []"
  by code_simp

lemma demo_channel_count:
  assumes ready: "should_summarize default_settings (w_db w) (w_buffers w) c now"
    and today: "length (get_suggestions_today (w_db w) now) = n"
    and below: "n < 3"
    and msgs: "get_messages_for_summary default_settings (w_db w) (w_buffers w) c now \<noteq> []"
  shows "length (fst (process_channel demo_env default_settings c now w)) = 3 - n"
proof -
  let ?msgs = "get_messages_for_summary default_settings (w_db w) (w_buffers w) c now"
  let ?smry = "\<lparr>summary = [115], key_ideas = [], opinions = [], decisions = [],
                 interesting_phrases = []\<rparr>"
  let ?cands = "[\<lparr>core_insight = [97], why_it_works = []\<rparr>,
                 \<lparr>core_insight = [98], why_it_works = []\<rparr>,
                 \<lparr>core_insight = [99], why_it_works = []\<rparr>]"
  let ?k = "w_llm_calls w"
  obtain summary_record d1 where sv:
    "save_summary demo_env (w_db w) c [115] ?msgs now = (summary_record, d1)"
    by (cases "save_summary demo_env (w_db w) c [115] ?msgs now")
  obtain fl k3 where fi: "filter_ideas demo_env d1 ?cands [115] (Suc (Suc ?k)) = (fl, k3)"
    by (cases "filter_ideas demo_env d1 ?cands [115] (Suc (Suc ?k))")
  have "fst (filter_ideas demo_env d1 ?cands [115] (Suc (Suc ?k))) = [] @ ?cands"
    unfolding filter_ideas_def by (rule demo_filter)
  with fi have fl: "fl = ?cands"
    by simp
  have quota: "int (length (get_suggestions_today (w_db w) now))
                 < max_suggestions_per_day default_settings"
    using today below by (simp add: default_settings_def)
  have sm: "summarize_conversation demo_env ?msgs ?k = (Some ?smry, Suc ?k)"
    by (rule demo_summarize [OF msgs])
  have dt: "detect_post_worthy demo_env ?smry (Suc ?k)
              = (\<lparr>is_post_worthy = True, ideas = ?cands\<rparr>, Suc (Suc ?k))"
    by (rule demo_detect)
  have pc: "fst (process_channel demo_env default_settings c now w)
          = fst (generate_step demo_env default_settings (summary ?smry) (sm_id summary_record)
                   now (get_suggestions_today (w_db w) now) fl d1 k3)"
    by (rule process_channel_full [OF ready quota refl msgs sm _ _ dt])
       (simp_all add: sv fi fl)
  have gs: "generate_step demo_env default_settings (summary ?smry) (sm_id summary_record)
                   now (get_suggestions_today (w_db w) now) fl d1 k3
          = generate_all demo_env (summary ?smry) (sm_id summary_record) now (take (3 - n) fl)
              d1 k3"
    using below
    by (simp add: generate_step_def Let_def py_prefix_def today default_settings_def
        nat_diff_distrib' of_nat_diff)
  have "length (fst (process_channel demo_env default_settings c now w))
          = length (take (3 - n) fl)"
    unfolding pc gs by (rule demo_generate_all)
  then show ?thesis
    by (simp add: fl)
qed

lemma demo_channel:
  "length (fst (process_channel demo_env default_settings ''C'' 1000 demo_world)) = 2"
  using demo_channel_count [OF demo_world_ready demo_world_today _ demo_world_messages]
  by simp

lemma demo_pass:
  "length (fst (process_all_channels demo_env default_settings (\<lambda>i. 1000 + int i) demo_world))
     = 2"
proof -
  have ch: "get_listening_channels (w_db demo_world) = [''C'']"
    by (simp add: get_listening_channels_def demo_world_def empty_world_def empty_db_def)
  show ?thesis
    using demo_channel
    by (simp add: process_all_channels_def ch split: prod.splits)
qed

lemma process_channel_skip:
  "\<not> should_summarize cfg (w_db w) (w_buffers w) channel now
     \<or> max_suggestions_per_day cfg \<le> int (length (get_suggestions_today (w_db w) now)) \<Longrightarrow>
   process_channel e cfg channel now w = ([], w)"
  by (auto simp: process_channel_def Let_def)

lemma full_world_today:
  "length (get_suggestions_today (w_db full_world) 1000) = 3"
  by code_simp

lemma le_nat_max: "n \<le> nat x \<Longrightarrow> int n \<le> max 0 x"
  by linarith

lemma generate_step_below:
  "int (length st) < max_suggestions_per_day cfg \<Longrightarrow>
     generate_step e cfg smry sid now st filtered d k
       = generate_all e smry sid now
           (take (nat (max_suggestions_per_day cfg - int (length st))) filtered) d k"
  by (simp add: generate_step_def Let_def py_prefix_def)

text \<open>A pass that starts in the last microsecond of a day on which the quota of
  three is used up: the second channel is processed on the next day, where today's
  count is zero again, and three suggestions are created.\<close>

theorem quota_midnight_counterexample:
  "max_suggestions_per_day default_settings = 3
   \<and> length (get_suggestions_today (w_db midnight_world) 86399999999) = 3
   \<and> length (fst (process_all_channels demo_env default_settings
                    (\<lambda>i. 86399999999 + 1000 * int i) midnight_world)) = 3
   \<and> \<not> int (length (fst (process_all_channels demo_env default_settings
                            (\<lambda>i. 86399999999 + 1000 * int i) midnight_world)))
         \<le> max_suggestions_per_day default_settings
             - int (length (get_suggestions_today (w_db midnight_world) 86399999999))"
proof -
  have ch: "get_listening_channels (w_db midnight_world) = [''A'', ''C'']"
    by (simp add: get_listening_channels_def midnight_world_def empty_world_def empty_db_def)
  have t0: "length (get_suggestions_today (w_db midnight_world) 86399999999) = 3"
    by code_simp
  have a: "process_channel demo_env default_settings ''A'' 86399999999 midnight_world
             = ([], midnight_world)"
    by (rule process_channel_skip) (simp add: t0 default_settings_def)
  have ready: "should_summarize default_settings (w_db midnight_world)
                 (w_buffers midnight_world) ''C'' 86400000999"
    by code_simp
  have t1: "length (get_suggestions_today (w_db midnight_world) 86400000999) = 0"
    by code_simp
  have msgs: "get_messages_for_summary default_settings (w_db midnight_world)
                (w_buffers midnight_world) ''C'' 86400000999 \<noteq> []"
    by code_simp
  have c: "length (fst (process_channel demo_env default_settings ''C'' 86400000999
                          midnight_world)) = 3"
    using demo_channel_count [OF ready t1 _ msgs] by simp
  have "length (fst (process_all_channels demo_env default_settings
                    (\<lambda>i. 86399999999 + 1000 * int i) midnight_world)) = 3"
    using c by (simp add: process_all_channels_def ch a split: prod.splits)
  then show ?thesis
    using t0 by (simp add: default_settings_def)
qed

text \<open>
  C4, as the code has it. In a pass all of whose channels are processed on the day
  the pass started (every channel's time has the same start of day as the start of
  the pass), the suggestions the pass creates are exactly the rows appended to the
  store, all pending, and their number is at most the daily quota minus the number of
  suggestions of today at the start of the pass (none when that number already
  reaches the quota). For one channel the results number at most the quota minus
  today's suggestions as read for that channel, and the channel is skipped, with
  nothing changed, when today's suggestions already reach the quota. Below the quota,
  step 4 works on the first \<open>quota - today\<close> filtered ideas, in their order: the
  results are a subsequence of that prefix.
\<close>

theorem quota_bound:
  assumes "\<forall>i < length (get_listening_channels (w_db w)). today_start (clock i) = today_start t0"
    and "process_all_channels e cfg clock w = (results, w')"
    and "process_channel e cfg channel now w0 = (rs, w1)"
    and "generate_step e cfg smry sid now1 st filtered d k = (gs, d2, k2)"
    and "int (length st) < max_suggestions_per_day cfg"
  shows "suggestions_tbl (w_db w') = suggestions_tbl (w_db w) @ map fst results
     \<and> (\<forall>r \<in> set results. s_status (fst r) = PENDING)
     \<and> int (length results)
         \<le> max 0 (max_suggestions_per_day cfg
                    - int (length (get_suggestions_today (w_db w) t0)))
     \<and> int (length rs)
         \<le> max 0 (max_suggestions_per_day cfg
                    - int (length (get_suggestions_today (w_db w0) now)))
     \<and> (max_suggestions_per_day cfg \<le> int (length (get_suggestions_today (w_db w0) now))
          \<longrightarrow> rs = [] \<and> w1 = w0)
     \<and> length gs \<le> nat (max_suggestions_per_day cfg - int (length st))
     \<and> subseq (map (idea_of_content \<circ> snd) gs)
          (take (nat (max_suggestions_per_day cfg - int (length st))) filtered)"
proof -
  have day: "\<forall>j. 0 \<le> j \<and> j < 0 + length (get_listening_channels (w_db w))
               \<longrightarrow> today_start (clock j) = today_start t0"
    using assms(1) by simp
  have pass: "process_channels e cfg clock 0 (get_listening_channels (w_db w)) w = (results, w')"
    using assms(2) by (simp add: process_all_channels_def)
  note p = process_channels_props [OF pass day]
  have "length results
         \<le> nat (max_suggestions_per_day cfg
                  - int (length (get_suggestions_today (w_db w) t0)))"
    using p by (simp add: get_suggestions_today_def)
  then have p3: "int (length results)
         \<le> max 0 (max_suggestions_per_day cfg
                    - int (length (get_suggestions_today (w_db w) t0)))"
    by (rule le_nat_max)
  note c = process_channel_props [OF assms(3)]
  have c2: "int (length rs)
         \<le> max 0 (max_suggestions_per_day cfg
                    - int (length (get_suggestions_today (w_db w0) now)))"
    using c(2) by (rule le_nat_max)
  have c3: "max_suggestions_per_day cfg \<le> int (length (get_suggestions_today (w_db w0) now))
          \<longrightarrow> rs = [] \<and> w1 = w0"
    using assms(3) process_channel_skip [of cfg w0 channel now e] by auto
  have "generate_all e smry sid now1
          (take (nat (max_suggestions_per_day cfg - int (length st))) filtered) d k
        = (gs, d2, k2)"
    using assms(4) generate_step_below [OF assms(5)] by simp
  note g = generate_all_props [OF this]
  have g2: "length gs \<le> nat (max_suggestions_per_day cfg - int (length st))"
    using g by simp
  show ?thesis
    using p p3 c2 c3 g g2 by blast
qed

theorem quota_bound_witness:
  "get_listening_channels (w_db demo_world) = [''C'']
   \<and> today_start (1000 + int 0) = today_start 1000
   \<and> length (fst (process_all_channels demo_env default_settings (\<lambda>i. 1000 + int i)
                    demo_world)) = 2
   \<and> int (length (fst (process_all_channels demo_env default_settings (\<lambda>i. 1000 + int i)
                    demo_world)))
       \<le> max 0 (max_suggestions_per_day default_settings
                  - int (length (get_suggestions_today (w_db demo_world) 1000)))
   \<and> length (get_suggestions_today (w_db demo_world) 1000) = 1
   \<and> max_suggestions_per_day default_settings
       \<le> int (length (get_suggestions_today (w_db full_world) 1000))
   \<and> process_channel demo_env default_settings ''C'' 1000 full_world = ([], full_world)
   \<and> int (length [example_suggestion ''s1'' SAVED]) < max_suggestions_per_day default_settings
   \<and> length (fst (generate_step demo_env default_settings [115] ''i'' 1000
                    [example_suggestion ''s1'' SAVED]
                    [example_idea, example_idea, example_idea] empty_db 0))
       \<le> nat (max_suggestions_per_day default_settings
                - int (length [example_suggestion ''s1'' SAVED]))"
proof -
  have day: "\<forall>i < length (get_listening_channels (w_db demo_world)).
       today_start (1000 + int i) = today_start 1000"
    by (simp add: get_listening_channels_def demo_world_def empty_world_def empty_db_def)
  have quota: "max_suggestions_per_day default_settings
       \<le> int (length (get_suggestions_today (w_db full_world) 1000))"
    by (simp add: full_world_today default_settings_def)
  have chan: "process_channel demo_env default_settings ''C'' 1000 full_world = ([], full_world)"
    using quota by (simp add: process_channel_skip)
  have below: "int (length [example_suggestion ''s1'' SAVED])
                 < max_suggestions_per_day default_settings"
    by (simp add: default_settings_def)
  have pass: "process_all_channels demo_env default_settings (\<lambda>i. 1000 + int i) demo_world
      = (fst (process_all_channels demo_env default_settings (\<lambda>i. 1000 + int i) demo_world),
         snd (process_all_channels demo_env default_settings (\<lambda>i. 1000 + int i) demo_world))"
    by simp
  let ?G = "generate_step demo_env default_settings [115] ''i'' 1000
              [example_suggestion ''s1'' SAVED]
              [example_idea, example_idea, example_idea] empty_db 0"
  have step: "?G = (fst ?G, fst (snd ?G), snd (snd ?G))"
    by simp
  have ch: "get_listening_channels (w_db demo_world) = [''C'']"
    by (simp add: get_listening_channels_def demo_world_def empty_world_def empty_db_def)
  show ?thesis
    using quota_bound [where clock = "\<lambda>i. 1000 + int i", OF day pass chan step below]
      ch quota chan below demo_pass demo_world_today
    by simp
qed

text \<open>
  C10. When a channel is not ready, or today's suggestions already reach the daily
  quota, \<open>process_channel\<close> returns the empty result list and the state it was given:
  the store (so no summary and no suggestion is added), the buffers (so the channel's
  buffered messages and the start of its window) and the model-call counter are all
  unchanged.
\<close>

theorem skipped_channel_unchanged:
  "\<not> should_summarize cfg (w_db w) (w_buffers w) channel now
     \<or> max_suggestions_per_day cfg \<le> int (length (get_suggestions_today (w_db w) now)) \<Longrightarrow>
   process_channel e cfg channel now w = ([], w)
   \<and> summaries_tbl (w_db (snd (process_channel e cfg channel now w))) = summaries_tbl (w_db w)
   \<and> suggestions_tbl (w_db (snd (process_channel e cfg channel now w)))
       = suggestions_tbl (w_db w)
   \<and> w_buffers (snd (process_channel e cfg channel now w)) channel = w_buffers w channel"
  by (auto simp: process_channel_def Let_def)

theorem skipped_channel_unchanged_witness:
  "\<not> should_summarize default_settings (w_db empty_world) (w_buffers empty_world) ''C'' 1000
   \<and> process_channel demo_env default_settings ''C'' 1000 empty_world = ([], empty_world)
   \<and> should_summarize default_settings (w_db full_world) (w_buffers full_world) ''C'' 1000
   \<and> max_suggestions_per_day default_settings
       \<le> int (length (get_suggestions_today (w_db full_world) 1000))
   \<and> process_channel demo_env default_settings ''C'' 1000 full_world = ([], full_world)"
proof -
  have a: "\<not> should_summarize default_settings (w_db empty_world) (w_buffers empty_world)
              ''C'' 1000"
    by code_simp
  have b: "should_summarize default_settings (w_db full_world) (w_buffers full_world) ''C'' 1000"
    by code_simp
  have c: "max_suggestions_per_day default_settings
       \<le> int (length (get_suggestions_today (w_db full_world) 1000))"
    by (simp add: full_world_today default_settings_def)
  show ?thesis
    using skipped_channel_unchanged [of default_settings empty_world "''C''" 1000 demo_env]
      skipped_channel_unchanged [of default_settings full_world "''C''" 1000 demo_env] a b c
    by simp
qed


section \<open>Reviewer feedback\<close>

lemma update_status_idem:
  "update_suggestion_status (update_suggestion_status d sid st) sid st
     = update_suggestion_status d sid st"
  by (simp add: update_suggestion_status_def)

lemma update_status_absent:
  "get_suggestion d sid = None \<Longrightarrow> update_suggestion_status d sid st = d"
proof -
  assume "get_suggestion d sid = None"
  then have "\<forall>r \<in> set (suggestions_tbl d). s_id r \<noteq> sid"
    by (auto simp: get_suggestion_def find_None_iff)
  then have "map (\<lambda>r. if s_id r = sid then r\<lparr>s_status := st\<rparr> else r) (suggestions_tbl d)
               = suggestions_tbl d"
    by (induction "suggestions_tbl d") (auto simp: map_idI)
  then show ?thesis
    by (simp add: update_suggestion_status_def)
qed

lemma handle_save_db:
  "ev_ts event = Some ts \<Longrightarrow> w_message_map w ts = Some sid \<Longrightarrow> sid \<noteq> [] \<Longrightarrow>
   ev_reaction event = Some ''+1'' \<or> ev_reaction event = Some ''thumbsup'' \<Longrightarrow>
     w_db (handle_reaction e event w) = update_suggestion_status (w_db w) sid SAVED
     \<and> w_message_map (handle_reaction e event w) = w_message_map w"
  by (auto simp: handle_reaction_def Let_def split: post_result.splits)

text \<open>A terminal suggestion is not protected: a save reaction on an ignored
  suggestion makes it saved.\<close>

theorem feedback_on_terminal_counterexample:
  "s_status (example_suggestion ''s3'' IGNORED) = IGNORED
   \<and> get_suggestion (w_db (full_world\<lparr>w_message_map := [''t1'' \<mapsto> ''s3'']\<rparr>)) ''s3''
       = Some (example_suggestion ''s3'' IGNORED)
   \<and> get_suggestion
         (w_db (handle_reaction base_env (reaction ''+1'')
                  (full_world\<lparr>w_message_map := [''t1'' \<mapsto> ''s3'']\<rparr>))) ''s3''
       = Some (example_suggestion ''s3'' SAVED)
   \<and> handle_reaction base_env (reaction ''+1'')
         (full_world\<lparr>w_message_map := [''t1'' \<mapsto> ''s3'']\<rparr>)
       \<noteq> full_world\<lparr>w_message_map := [''t1'' \<mapsto> ''s3'']\<rparr>"
proof -
  let ?w = "full_world\<lparr>w_message_map := [''t1'' \<mapsto> ''s3'']\<rparr>"
  have a: "get_suggestion (w_db ?w) ''s3'' = Some (example_suggestion ''s3'' IGNORED)"
    by (simp add: get_suggestion_def full_world_def demo_world_def example_suggestion_def)
  have "w_db (handle_reaction base_env (reaction ''+1'') ?w)
          = update_suggestion_status (w_db ?w) ''s3'' SAVED"
    by (simp add: handle_save_db [where ts = "''t1''" and sid = "''s3''"] reaction_def)
  then have b: "get_suggestion (w_db (handle_reaction base_env (reaction ''+1'') ?w)) ''s3''
          = Some (example_suggestion ''s3'' SAVED)"
    by (simp add: get_suggestion_def update_suggestion_status_def full_world_def demo_world_def
        example_suggestion_def)
  have "handle_reaction base_env (reaction ''+1'') ?w \<noteq> ?w"
  proof
    assume "handle_reaction base_env (reaction ''+1'') ?w = ?w"
    with a b show False
      by (simp add: example_suggestion_def)
  qed
  with a b show ?thesis
    by (simp add: example_suggestion_def)
qed

text \<open>
  C1, as the code has it. A reaction on a message whose handle is mapped to no
  suggestion id (or to an empty one) changes nothing. For a mapped id, a save
  reaction sets the status of the stored suggestions with that id to saved, and an
  ignore reaction to ignored, whatever the status was; when no stored suggestion has
  the id the store is unchanged. Handling the same save reaction a second time
  leaves the store as the first handling left it.
\<close>

theorem feedback_status_update:
  "((ev_ts event = None \<or> (\<exists>ts. ev_ts event = Some ts
        \<and> (w_message_map w ts = None \<or> w_message_map w ts = Some [])))
      \<longrightarrow> handle_reaction e event w = w)
   \<and> (ev_ts event = Some ts \<and> w_message_map w ts = Some sid \<and> sid \<noteq> []
        \<and> (ev_reaction event = Some ''+1'' \<or> ev_reaction event = Some ''thumbsup'')
      \<longrightarrow> w_db (handle_reaction e event w) = update_suggestion_status (w_db w) sid SAVED
          \<and> (get_suggestion (w_db w) sid = None \<longrightarrow> w_db (handle_reaction e event w) = w_db w)
          \<and> w_db (handle_reaction e event (handle_reaction e event w))
              = w_db (handle_reaction e event w))
   \<and> (ev_ts event = Some ts \<and> w_message_map w ts = Some sid \<and> sid \<noteq> []
        \<and> (ev_reaction event = Some ''x''
             \<or> ev_reaction event = Some ''negative_squared_cross_mark'')
      \<longrightarrow> handle_reaction e event w
            = w\<lparr>w_db := update_suggestion_status (w_db w) sid IGNORED\<rparr>)"
proof -
  have A: "(ev_ts event = None \<or> (\<exists>ts. ev_ts event = Some ts
        \<and> (w_message_map w ts = None \<or> w_message_map w ts = Some [])))
      \<longrightarrow> handle_reaction e event w = w"
    by (auto simp: handle_reaction_def)
  have B: "ev_ts event = Some ts \<and> w_message_map w ts = Some sid \<and> sid \<noteq> []
        \<and> (ev_reaction event = Some ''+1'' \<or> ev_reaction event = Some ''thumbsup'')
      \<longrightarrow> w_db (handle_reaction e event w) = update_suggestion_status (w_db w) sid SAVED
          \<and> (get_suggestion (w_db w) sid = None \<longrightarrow> w_db (handle_reaction e event w) = w_db w)
          \<and> w_db (handle_reaction e event (handle_reaction e event w))
              = w_db (handle_reaction e event w)"
  proof
    assume a: "ev_ts event = Some ts \<and> w_message_map w ts = Some sid \<and> sid \<noteq> []
        \<and> (ev_reaction event = Some ''+1'' \<or> ev_reaction event = Some ''thumbsup'')"
    then have 1: "w_db (handle_reaction e event w) = update_suggestion_status (w_db w) sid SAVED"
      and 2: "w_message_map (handle_reaction e event w) = w_message_map w"
      using handle_save_db [of event ts w sid e] by simp_all
    have 3: "get_suggestion (w_db w) sid = None \<longrightarrow> w_db (handle_reaction e event w) = w_db w"
      using 1 by (simp add: update_status_absent)
    have "w_db (handle_reaction e event (handle_reaction e event w))
          = update_suggestion_status (w_db (handle_reaction e event w)) sid SAVED"
      using a 2 handle_save_db [of event ts "handle_reaction e event w" sid e] by simp
    then have 4: "w_db (handle_reaction e event (handle_reaction e event w))
              = w_db (handle_reaction e event w)"
      using 1 by (simp add: update_status_idem)
    from 1 3 4
    show "w_db (handle_reaction e event w) = update_suggestion_status (w_db w) sid SAVED
          \<and> (get_suggestion (w_db w) sid = None \<longrightarrow> w_db (handle_reaction e event w) = w_db w)
          \<and> w_db (handle_reaction e event (handle_reaction e event w))
              = w_db (handle_reaction e event w)"
      by blast
  qed
  have C: "ev_ts event = Some ts \<and> w_message_map w ts = Some sid \<and> sid \<noteq> []
        \<and> (ev_reaction event = Some ''x''
             \<or> ev_reaction event = Some ''negative_squared_cross_mark'')
      \<longrightarrow> handle_reaction e event w
            = w\<lparr>w_db := update_suggestion_status (w_db w) sid IGNORED\<rparr>"
    by (auto simp: handle_reaction_def)
  from A B C show ?thesis
    by (intro conjI)
qed

theorem feedback_status_update_witness:
  "ev_ts (reaction ''+1'') = Some ''t1'' \<and> w_message_map full_world ''t1'' = Some ''s1''
   \<and> ev_reaction (reaction ''+1'') = Some ''+1''
   \<and> w_db (handle_reaction demo_env (reaction ''+1'') full_world)
       = update_suggestion_status (w_db full_world) ''s1'' SAVED
   \<and> w_db (handle_reaction demo_env (reaction ''+1'')
              (handle_reaction demo_env (reaction ''+1'') full_world))
       = w_db (handle_reaction demo_env (reaction ''+1'') full_world)
   \<and> w_message_map full_world ''t9'' = None
   \<and> handle_reaction demo_env ((reaction ''+1'')\<lparr>ev_ts := Some ''t9''\<rparr>) full_world = full_world
   \<and> ev_reaction (reaction ''x'') = Some ''x''
   \<and> handle_reaction demo_env (reaction ''x'') full_world
       = full_world\<lparr>w_db := update_suggestion_status (w_db full_world) ''s1'' IGNORED\<rparr>"
  using feedback_status_update
      [where event = "reaction ''+1''" and w = full_world and e = demo_env and ts = "''t1''"
         and sid = "''s1''"]
    feedback_status_update
      [where event = "(reaction ''+1'')\<lparr>ev_ts := Some ''t9''\<rparr>" and w = full_world
         and e = demo_env and ts = "''t1''" and sid = "''s1''"]
    feedback_status_update
      [where event = "reaction ''x''" and w = full_world and e = demo_env and ts = "''t1''"
         and sid = "''s1''"]
  by (simp add: reaction_def full_world_def demo_world_def empty_world_def)


lemma send_suggestion_db: "w_db (send_suggestion e c i y l x sid w) = w_db w"
  by (simp add: send_suggestion_def Let_def split: post_result.splits)







section \<open>Drafts\<close>

lemma length_py_strip: "length (py_strip e s) \<le> length s"
proof -
  have "length (py_strip e s) \<le> length (dropWhile (is_space e) s)"
    using length_dropWhile_le [of "is_space e" "rev (dropWhile (is_space e) s)"]
    by (simp add: py_strip_def)
  also have "\<dots> \<le> length s"
    by (rule length_dropWhile_le)
  finally show ?thesis .
qed

lemma length_truncate_x: "length (truncate_x s) \<le> 280"
  by (simp add: truncate_x_def)

lemma length_clean_x_draft: "length (clean_x_draft e draft) \<le> 280"
  unfolding clean_x_draft_def
  by (rule order_trans [OF length_py_strip length_truncate_x])

lemma dot_not_space: "\<not> is_space e 46"
  by (simp add: is_space_def)

lemma py_strip_marker:
  "py_strip e (xs @ [46, 46, 46]) = dropWhile (is_space e) xs @ [46, 46, 46]"
proof (cases "\<forall>x \<in> set xs. is_space e x")
  case True
  then have "dropWhile (is_space e) (xs @ [46, 46, 46]) = [46, 46, 46]"
    by (simp add: dropWhile_append dot_not_space)
  moreover from True have "dropWhile (is_space e) xs = []"
    by simp
  ultimately show ?thesis
    by (simp add: py_strip_def dot_not_space)
next
  case False
  then have "dropWhile (is_space e) (xs @ [46, 46, 46])
               = dropWhile (is_space e) xs @ [46, 46, 46]"
    by (simp add: dropWhile_append)
  then show ?thesis
    by (simp add: py_strip_def dot_not_space)
qed

lemma generate_x_post_length: "length (fst (generate_x_post e idea k)) \<le> 280"
  by (simp add: generate_x_post_def length_clean_x_draft split: option.splits)

lemma generate_all_x_drafts:
  "generate_all e smry sid now cands d k = (results, d2, k2) \<Longrightarrow>
     \<forall>r \<in> set results. length (s_x_draft (fst r)) \<le> 280"
proof (induction cands arbitrary: d k results d2 k2)
  case Nil
  then show ?case by simp
next
  case (Cons idea rest)
  obtain content k1 where gc: "generate_content e idea smry k = (content, k1)"
    by (cases "generate_content e idea smry k")
  have xl: "length (x_draft content) \<le> 280"
    using gc generate_x_post_length [of e idea]
    by (auto simp: generate_content_def split: prod.splits) (metis fst_conv)
  show ?case
  proof (cases "linkedin_draft content = [] \<or> x_draft content = []")
    case True
    with Cons.prems gc have "generate_all e smry sid now rest d k1 = (results, d2, k2)"
      by simp
    from Cons.IH [OF this] show ?thesis .
  next
    case False
    obtain saved d1 where sv: "save_suggestion e d content sid now = (saved, d1)"
      by (cases "save_suggestion e d content sid now")
    obtain res d3 k3 where ga: "generate_all e smry sid now rest d1 k1 = (res, d3, k3)"
      by (cases "generate_all e smry sid now rest d1 k1")
    from Cons.prems gc False sv ga have eqs: "results = (saved, content) # res"
      by simp
    have "s_x_draft saved = x_draft content"
      using sv by (auto simp: save_suggestion_def db_save_suggestion_def Let_def)
    with Cons.IH [OF ga] xl eqs show ?thesis by simp
  qed
qed

lemma process_channel_x_drafts:
  assumes "process_channel e cfg channel now w = (rs, w')"
    and "\<forall>r \<in> set (suggestions_tbl (w_db w)). length (s_x_draft r) \<le> 280"
  shows "\<forall>r \<in> set (suggestions_tbl (w_db w')). length (s_x_draft r) \<le> 280"
proof -
  have "\<forall>r \<in> set rs. length (s_x_draft (fst r)) \<le> 280"
    using assms(1)
    by (auto simp: process_channel_def generate_step_def Let_def
        split: if_splits prod.splits option.splits dest!: generate_all_x_drafts)
  moreover have "suggestions_tbl (w_db w') = suggestions_tbl (w_db w) @ map fst rs"
    using process_channel_props(1) [OF assms(1)] .
  ultimately show ?thesis
    using assms(2) by auto
qed

lemma update_status_x_drafts:
  "map s_x_draft (suggestions_tbl (update_suggestion_status d sid st))
     = map s_x_draft (suggestions_tbl d)"
  by (induction "suggestions_tbl d" arbitrary: d) (auto simp: update_suggestion_status_def)

lemma handle_reaction_x_drafts:
  "map s_x_draft (suggestions_tbl (w_db (handle_reaction e event w)))
     = map s_x_draft (suggestions_tbl (w_db w))"
  by (auto simp: handle_reaction_def rewrite_suggestion_def send_suggestion_db
      update_status_x_drafts Let_def split: option.splits post_result.splits prod.splits)

lemma x_drafts_map:
  "(\<forall>r \<in> set tbl. length (s_x_draft r) \<le> 280)
     = (\<forall>x \<in> set (map s_x_draft tbl). length x \<le> 280)"
  by simp

text \<open>
  C9. The cleaned X draft has at most 280 code points, so every draft
  \<open>generate_x_post\<close> returns has (the empty draft of a failed call included), and the
  one \<open>rewrite_x\<close> returns has whenever its model call succeeds or the original draft it
  falls back to is itself within 280. The originals are stored drafts: a channel's
  pass and the handling of a reaction keep every stored X draft within 280, so in a
  store filled by the pipeline the X draft of a rewrite is within 280 too. When the draft is longer than
  280 after the hashtag and emoji passes, the result is its first 277 code points with
  the marker \<open>...\<close> appended (and leading whitespace stripped).
\<close>

theorem x_draft_length_bound:
  "length (clean_x_draft e draft) \<le> 280
   \<and> (280 < length (sub_emoji (sub_hashtag_space e draft))
        \<longrightarrow> clean_x_draft e draft
              = dropWhile (is_space e) (take 277 (sub_emoji (sub_hashtag_space e draft)))
                  @ [46, 46, 46])
   \<and> length (fst (generate_x_post e idea k)) \<le> 280
   \<and> length (x_draft (fst (generate_content e idea smry k))) \<le> 280
   \<and> (llm_complete e k (RewriteXPrompt original insight) \<noteq> None \<or> length original \<le> 280
        \<longrightarrow> length (fst (rewrite_x e original insight k)) \<le> 280)
   \<and> ((\<forall>r \<in> set (suggestions_tbl (w_db w)). length (s_x_draft r) \<le> 280)
        \<and> process_channel e cfg channel now w = (rs, w')
        \<longrightarrow> (\<forall>r \<in> set (suggestions_tbl (w_db w')). length (s_x_draft r) \<le> 280))
   \<and> ((\<forall>r \<in> set (suggestions_tbl (w_db w)). length (s_x_draft r) \<le> 280)
        \<longrightarrow> (\<forall>r \<in> set (suggestions_tbl (w_db (handle_reaction e event w))).
               length (s_x_draft r) \<le> 280))
   \<and> ((\<forall>r \<in> set (suggestions_tbl (w_db w)). length (s_x_draft r) \<le> 280)
        \<and> get_suggestion (w_db w) sid = Some s
        \<longrightarrow> length (fst (rewrite_x e (s_x_draft s) (s_insight s) k)) \<le> 280)"
proof -
  have A: "280 < length (sub_emoji (sub_hashtag_space e draft))
        \<longrightarrow> clean_x_draft e draft
              = dropWhile (is_space e) (take 277 (sub_emoji (sub_hashtag_space e draft)))
                  @ [46, 46, 46]"
    by (simp add: clean_x_draft_def truncate_x_def py_strip_marker)
  have B: "length (x_draft (fst (generate_content e idea smry k))) \<le> 280"
    using generate_x_post_length [of e idea]
    by (auto simp: generate_content_def split: prod.splits) (metis fst_conv)
  have C: "llm_complete e k (RewriteXPrompt original insight) \<noteq> None \<or> length original \<le> 280
        \<longrightarrow> length (fst (rewrite_x e original insight k)) \<le> 280"
    by (auto simp: rewrite_x_def length_clean_x_draft split: option.splits)
  have D: "(\<forall>r \<in> set (suggestions_tbl (w_db w)). length (s_x_draft r) \<le> 280)
        \<and> process_channel e cfg channel now w = (rs, w')
        \<longrightarrow> (\<forall>r \<in> set (suggestions_tbl (w_db w')). length (s_x_draft r) \<le> 280)"
    using process_channel_x_drafts [of e cfg channel now w rs w'] by blast
  have E: "(\<forall>r \<in> set (suggestions_tbl (w_db w)). length (s_x_draft r) \<le> 280)
        \<longrightarrow> (\<forall>r \<in> set (suggestions_tbl (w_db (handle_reaction e event w))).
               length (s_x_draft r) \<le> 280)"
    unfolding x_drafts_map handle_reaction_x_drafts by simp
  have F: "(\<forall>r \<in> set (suggestions_tbl (w_db w)). length (s_x_draft r) \<le> 280)
        \<and> get_suggestion (w_db w) sid = Some s
        \<longrightarrow> length (fst (rewrite_x e (s_x_draft s) (s_insight s) k)) \<le> 280"
  proof
    assume a: "(\<forall>r \<in> set (suggestions_tbl (w_db w)). length (s_x_draft r) \<le> 280)
        \<and> get_suggestion (w_db w) sid = Some s"
    then have "s \<in> set (suggestions_tbl (w_db w))"
      by (auto simp: get_suggestion_def find_Some_iff)
    with a have "length (s_x_draft s) \<le> 280"
      by blast
    then show "length (fst (rewrite_x e (s_x_draft s) (s_insight s) k)) \<le> 280"
      by (auto simp: rewrite_x_def length_clean_x_draft split: option.splits)
  qed
  from length_clean_x_draft [of e draft] A generate_x_post_length [of e idea k] B C D E F
  show ?thesis
    by (intro conjI)
qed

theorem x_draft_length_bound_witness:
  "280 < length (sub_emoji (sub_hashtag_space base_env (replicate 300 120)))
   \<and> clean_x_draft base_env (replicate 300 120) = replicate 277 120 @ [46, 46, 46]
   \<and> length (clean_x_draft base_env (replicate 300 120)) = 280
   \<and> length [120::nat] \<le> 280
   \<and> length (fst (rewrite_x base_env [120] [105] 0)) \<le> 280
   \<and> map (length \<circ> s_x_draft) (suggestions_tbl (w_db full_world)) = [1, 1, 1]
   \<and> process_channel base_env default_settings ''C'' 1000 full_world = ([], full_world)
   \<and> list_all (\<lambda>r. length (s_x_draft r) \<le> 280)
         (suggestions_tbl (w_db (snd (process_channel base_env default_settings ''C'' 1000
                                        full_world))))
   \<and> list_all (\<lambda>r. length (s_x_draft r) \<le> 280)
         (suggestions_tbl (w_db (handle_reaction base_env (reaction ''+1'') full_world)))
   \<and> get_suggestion (w_db full_world) ''s1'' = Some (example_suggestion ''s1'' SAVED)
   \<and> length (fst (rewrite_x base_env (s_x_draft (example_suggestion ''s1'' SAVED))
                    (s_insight (example_suggestion ''s1'' SAVED)) 0)) \<le> 280"
proof -
  have h: "sub_hashtag_space e (replicate n 120) = replicate n 120" for e n
    by (induction n) simp_all
  have s: "sub_emoji (replicate n 120) = replicate n 120" for n
    by (simp add: sub_emoji_def is_emoji_def)
  have long: "280 < length (sub_emoji (sub_hashtag_space base_env (replicate 300 120)))"
    by (simp add: h s)
  have sp: "\<not> is_space base_env 120"
    by (simp add: is_space_def)
  have st: "\<forall>r \<in> set (suggestions_tbl (w_db full_world)). length (s_x_draft r) \<le> 280"
    by (simp add: full_world_def demo_world_def example_suggestion_def)
  have quota: "max_suggestions_per_day default_settings
       \<le> int (length (get_suggestions_today (w_db full_world) 1000))"
    by (simp add: full_world_today default_settings_def)
  have pc: "process_channel base_env default_settings ''C'' 1000 full_world = ([], full_world)"
    using quota by (simp add: process_channel_skip)
  have o: "length [120::nat] \<le> 280"
    by simp
  note t = x_draft_length_bound
        [where e = base_env and draft = "replicate 300 120" and original = "[120]"
           and insight = "[105]" and k = 0 and idea = example_idea and smry = "[]"
           and cfg = default_settings and channel = "''C''" and now = 1000
           and w = full_world and rs = "[]" and w' = full_world
           and event = "reaction ''+1''" and sid = "''s1''"
           and s = "example_suggestion ''s1'' SAVED"]
  have "clean_x_draft base_env (replicate 300 120)
          = dropWhile (is_space base_env)
              (take 277 (sub_emoji (sub_hashtag_space base_env (replicate 300 120))))
            @ [46, 46, 46]"
    using t long by blast
  then have c1: "clean_x_draft base_env (replicate 300 120) = replicate 277 120 @ [46, 46, 46]"
    by (simp add: h s sp)
  have c2: "length (fst (rewrite_x base_env [120] [105] 0)) \<le> 280"
    using t o by blast
  have c3: "\<forall>r \<in> set (suggestions_tbl (w_db full_world)). length (s_x_draft r) \<le> 280"
    using t st pc by blast
  have m: "map (length \<circ> s_x_draft) (suggestions_tbl (w_db full_world)) = [1, 1, 1]"
    by (simp add: full_world_def demo_world_def example_suggestion_def)
  have g: "get_suggestion (w_db full_world) ''s1'' = Some (example_suggestion ''s1'' SAVED)"
    by (simp add: get_suggestion_def full_world_def demo_world_def example_suggestion_def)
  have c4: "\<forall>r \<in> set (suggestions_tbl (w_db (handle_reaction base_env (reaction ''+1'')
                                                 full_world))).
              length (s_x_draft r) \<le> 280"
    using t st by blast
  have c5: "length (fst (rewrite_x base_env (s_x_draft (example_suggestion ''s1'' SAVED))
                    (s_insight (example_suggestion ''s1'' SAVED)) 0)) \<le> 280"
    using t st g by blast
  from long c1 o c2 m pc c3 c4 g c5 show ?thesis
    by (simp add: list_all_iff)
qed


section \<open>Hashtags and emoji in drafts\<close>

lemma has_hashtag_Cons:
  "has_hashtag e (c # xs) = ((c = 35 \<and> xs \<noteq> [] \<and> is_word e (hd xs)) \<or> has_hashtag e xs)"
  by (cases xs) simp_all

lemma has_hashtag_suffix: "has_hashtag e ys \<Longrightarrow> has_hashtag e (xs @ ys)"
  by (induction xs) (simp_all add: has_hashtag_Cons)

lemma has_hashtag_prefix: "has_hashtag e xs \<Longrightarrow> has_hashtag e (xs @ ys)"
proof (induction xs)
  case Nil
  then show ?case by simp
next
  case (Cons c xs)
  then show ?case
    by (cases xs) (auto simp: has_hashtag_Cons)
qed

lemma has_hashtag_dropWhile: "has_hashtag e (dropWhile P xs) \<Longrightarrow> has_hashtag e xs"
  using has_hashtag_suffix [of e "dropWhile P xs" "takeWhile P xs"] by simp

lemma has_hashtag_py_strip: "has_hashtag e (py_strip e s) \<Longrightarrow> has_hashtag e s"
proof -
  assume a: "has_hashtag e (py_strip e s)"
  let ?t = "dropWhile (is_space e) s"
  have "rev (takeWhile (is_space e) (rev ?t) @ dropWhile (is_space e) (rev ?t)) = ?t"
    by (simp only: takeWhile_dropWhile_id rev_rev_ident)
  then have "py_strip e s @ rev (takeWhile (is_space e) (rev ?t)) = ?t"
    by (simp only: rev_append py_strip_def)
  then have "has_hashtag e ?t"
    using has_hashtag_prefix [OF a] by metis
  then show ?thesis
    by (rule has_hashtag_dropWhile)
qed

lemma sub_newlines_Cons: "\<exists>ys. sub_newlines (c # cs) = c # ys"
  by simp

lemma has_hashtag_sub_newlines:
  "\<not> has_hashtag e s \<Longrightarrow> \<not> has_hashtag e (sub_newlines s)"
proof (induction s rule: sub_newlines.induct)
  case 1
  then show ?case by simp
next
  case (2 c cs)
  show ?case
  proof (cases "c = 10 \<and> 2 \<le> length (takeWhile (\<lambda>x. x = 10) cs)")
    case True
    have "\<not> has_hashtag e cs"
      using "2.prems" by (simp add: has_hashtag_Cons)
    then have "\<not> has_hashtag e (dropWhile (\<lambda>x. x = 10) cs)"
      using has_hashtag_dropWhile by blast
    then have "\<not> has_hashtag e (sub_newlines (dropWhile (\<lambda>x. x = 10) cs))"
      using "2.IH"(1) True by blast
    then show ?thesis
      using True by (simp add: has_hashtag_Cons)
  next
    case False
    have nc: "\<not> has_hashtag e cs" and hd: "\<not> (c = 35 \<and> cs \<noteq> [] \<and> is_word e (hd cs))"
      using "2.prems" by (simp_all add: has_hashtag_Cons)
    have ih: "\<not> has_hashtag e (sub_newlines cs)"
      using "2.IH"(2) False nc by blast
    have "cs \<noteq> [] \<Longrightarrow> sub_newlines cs \<noteq> [] \<and> hd (sub_newlines cs) = hd cs"
      using sub_newlines_Cons by (cases cs) auto
    then have "\<not> (c = 35 \<and> sub_newlines cs \<noteq> [] \<and> is_word e (hd (sub_newlines cs)))"
      using hd by (cases cs) auto
    then show ?thesis
      using False ih by (auto simp: has_hashtag_Cons)
  qed
qed

lemma sub_hashtag_head:
  "cs = [] \<or> \<not> is_word e (hd cs) \<Longrightarrow>
     sub_hashtag e cs = [] \<or> \<not> is_word e (hd (sub_hashtag e cs))"
proof (induction e cs rule: sub_hashtag.induct)
  case (1 e)
  then show ?case by simp
next
  case (2 e c cs)
  show ?case
  proof (cases "c = 35 \<and> cs \<noteq> [] \<and> is_word e (hd cs)")
    case True
    have "dropWhile (is_word e) cs = [] \<or> \<not> is_word e (hd (dropWhile (is_word e) cs))"
      using hd_dropWhile [of "is_word e" cs] by blast
    then show ?thesis
      using "2.IH"(1) True by simp
  next
    case False
    then show ?thesis
      using "2.prems" by auto
  qed
qed

lemma sub_hashtag_clean: "\<not> has_hashtag e (sub_hashtag e s)"
proof (induction e s rule: sub_hashtag.induct)
  case (1 e)
  then show ?case by simp
next
  case (2 e c cs)
  show ?case
  proof (cases "c = 35 \<and> cs \<noteq> [] \<and> is_word e (hd cs)")
    case True
    then show ?thesis
      using "2.IH"(1) by simp
  next
    case False
    have ih: "\<not> has_hashtag e (sub_hashtag e cs)"
      using "2.IH"(2) False by blast
    have "c = 35 \<Longrightarrow> sub_hashtag e cs = [] \<or> \<not> is_word e (hd (sub_hashtag e cs))"
      using False sub_hashtag_head [of cs e] by blast
    then show ?thesis
      using False ih by (auto simp: has_hashtag_Cons)
  qed
qed

text \<open>The LinkedIn path does remove every hashtag token.\<close>

lemma clean_linkedin_draft_no_hashtag: "\<not> has_hashtag e (clean_linkedin_draft e draft)"
proof -
  have "\<not> has_hashtag e (sub_newlines (sub_hashtag e (sub_emoji draft)))"
    by (rule has_hashtag_sub_newlines) (rule sub_hashtag_clean)
  then show ?thesis
    unfolding clean_linkedin_draft_def using has_hashtag_py_strip by blast
qed

text \<open>Neither path leaves a code point of the ranges of \<open>emoji_pattern\<close>.\<close>

lemma set_py_strip: "set (py_strip e s) \<subseteq> set s"
  by (auto simp: py_strip_def dest!: set_dropWhileD)

lemma set_sub_hashtag: "set (sub_hashtag e s) \<subseteq> set s"
proof (induction e s rule: sub_hashtag.induct)
  case (1 e)
  then show ?case by simp
next
  case (2 e c cs)
  have "set (dropWhile (is_word e) cs) \<subseteq> set cs"
    using set_dropWhileD [of _ "is_word e" cs] by auto
  with 2 show ?case
    by (cases "c = 35 \<and> cs \<noteq> [] \<and> is_word e (hd cs)") auto
qed

lemma set_sub_newlines: "set (sub_newlines s) \<subseteq> set s"
proof (induction s rule: sub_newlines.induct)
  case 1
  then show ?case by simp
next
  case (2 c cs)
  have "set (dropWhile (\<lambda>x. x = 10) cs) \<subseteq> set cs"
    using set_dropWhileD [of _ "\<lambda>x. x = 10" cs] by auto
  with 2 show ?case
    by (cases "c = 10 \<and> 2 \<le> length (takeWhile (\<lambda>x. x = 10) cs)") auto
qed

lemma drafts_no_emoji:
  "\<forall>c \<in> set (clean_linkedin_draft e draft). \<not> is_emoji c"
  "\<forall>c \<in> set (clean_x_draft e draft). \<not> is_emoji c"
proof -
  have a: "\<forall>c \<in> set (sub_emoji s). \<not> is_emoji c" for s
    by (simp add: sub_emoji_def)
  have "set (clean_linkedin_draft e draft) \<subseteq> set (sub_emoji draft)"
    unfolding clean_linkedin_draft_def
    using set_py_strip set_sub_newlines set_sub_hashtag by (meson order_trans)
  with a show "\<forall>c \<in> set (clean_linkedin_draft e draft). \<not> is_emoji c"
    by blast
  have "set (truncate_x s) \<subseteq> set s \<union> {46}" for s
    using set_take_subset [of 277 s] by (auto simp: truncate_x_def)
  then have "set (clean_x_draft e draft) \<subseteq> set (sub_emoji (sub_hashtag_space e draft)) \<union> {46}"
    unfolding clean_x_draft_def using set_py_strip by (meson order_trans)
  moreover have "\<not> is_emoji 46"
    by (simp add: is_emoji_def)
  ultimately show "\<forall>c \<in> set (clean_x_draft e draft). \<not> is_emoji c"
    using a by blast
qed

text \<open>
  C3. The X path does not remove every hashtag token. In \<open>##a b\<close> the pattern
  \<open>#\w+\s*\<close> matches \<open>#a\<close> with the blank behind it, and what is left, \<open>#b\<close>, is a
  hashtag token; this holds whatever the Unicode tables are. In \<open>#\<close>, U+1F680,
  \<open>go\<close> the \<open>#\<close> is followed by an emoji, so the hashtag pass, which runs first,
  finds nothing, and the emoji pass then leaves \<open>#go\<close>. Both drafts reach the
  caller of \<open>generate_x_post\<close> and of \<open>rewrite_x\<close>.
\<close>

theorem x_draft_keeps_hashtag:
  "clean_x_draft e (py ''##a b'') = py ''#b''
   \<and> has_hashtag e (clean_x_draft e (py ''##a b''))
   \<and> clean_x_draft base_env [35, 0x1F680, 103, 111] = py ''#go''
   \<and> has_hashtag base_env (clean_x_draft base_env [35, 0x1F680, 103, 111])
   \<and> fst (generate_x_post (base_env\<lparr>llm_complete := \<lambda>k p. Some (py ''##a b'')\<rparr>)
            example_idea 0) = py ''#b''
   \<and> fst (rewrite_x (base_env\<lparr>llm_complete := \<lambda>k p. Some (py ''##a b'')\<rparr>) [120] [105] 0)
       = py ''#b''"
  by (simp add: clean_x_draft_def generate_x_post_def rewrite_x_def py_def is_word_def
      is_space_def sub_emoji_def is_emoji_def truncate_x_def py_strip_def base_env_def)


end
